theory Spec2Isabelle
  imports Main
begin

section \<open>The OAuth token handler (pkg/lib/oauth/handler/handler\_token.go)\<close>

text \<open>
  A shallow embedding of the token endpoint's handler. The handler is written against
  interfaces (stores, token service, session manager, ...) whose implementations live in
  other packages; every interface is a record of functions over an abstract world state
  \<open>'s\<close>, so that each theorem holds for every implementation. A method that only reads
  is a function of the state, a method that writes returns the new state too. A Go
  result \<open>(v, err)\<close> is a value of \<open>error + 'a\<close> (\<open>Inl\<close> the error), a Go \<open>error\<close>
  result is an \<open>error option\<close> (\<open>None\<close> is \<open>nil\<close>). Logging is not modelled.
\<close>

subsection \<open>Errors and results\<close>

text \<open>
  \<open>OAuthProtocolError code description\<close> is \<open>protocol.NewError(code, description)\<close>.
  The other constructors are the sentinel errors the handler compares against and returns,
  an API error with its reason, and any other error of a collaborator.
\<close>

datatype error =
    OAuthProtocolError string string
  | ErrGrantNotFound
  | ErrAuthorizationNotFound
  | ErrInvalidDPoPKeyBinding
  | ErrInvalidRefreshToken
  | APIError string
  | OtherError string

text \<open>A function of the handler returns a value, returns an error, or panics.\<close>

datatype 'a res = Panic string | Err error | Ok 'a

type_synonym time = int

type_synonym TokenResponse = "string \<rightharpoonup> string"

subsection \<open>Constants\<close>

definition AuthorizationCodeGrantType :: string where
  "AuthorizationCodeGrantType = ''authorization_code''"

definition RefreshTokenGrantType :: string where
  "RefreshTokenGrantType = ''refresh_token''"

definition TokenExchangeGrantType :: string where
  "TokenExchangeGrantType = ''urn:ietf:params:oauth:grant-type:token-exchange''"

definition AnonymousRequestGrantType :: string where
  "AnonymousRequestGrantType = ''urn:authgear:params:oauth:grant-type:anonymous-request''"

definition BiometricRequestGrantType :: string where
  "BiometricRequestGrantType = ''urn:authgear:params:oauth:grant-type:biometric-request''"

definition App2AppRequestGrantType :: string where
  "App2AppRequestGrantType = ''urn:authgear:params:oauth:grant-type:app2app-request''"

definition IDTokenGrantType :: string where
  "IDTokenGrantType = ''urn:authgear:params:oauth:grant-type:id-token''"

definition SettingsActionGrantType :: string where
  "SettingsActionGrantType = ''urn:authgear:params:oauth:grant-type:settings-action''"

definition whitelistedGrantTypes :: "string list" where
  "whitelistedGrantTypes =
     [AuthorizationCodeGrantType, RefreshTokenGrantType, AnonymousRequestGrantType,
      BiometricRequestGrantType, App2AppRequestGrantType, IDTokenGrantType,
      SettingsActionGrantType, TokenExchangeGrantType]"

definition errInvalidAuthzCode :: error where
  "errInvalidAuthzCode = OAuthProtocolError ''invalid_grant'' ''invalid authorization code''"

text \<open>
  Modelled from the spec: the scope names \<open>oauth.OfflineAccess\<close> and \<open>oauth.DeviceSSOScope\<close>
  are constants of package oauth; the spec writes them \<open>offline_access\<close> and \<open>device_sso\<close>.
\<close>

definition OfflineAccess :: string where
  "OfflineAccess = ''offline_access''"

definition DeviceSSOScope :: string where
  "DeviceSSOScope = ''device_sso''"

text \<open>
  \<open>pkce.CodeChallengeMethodS256\<close>, the only transform the request validation accepts; its
  error message spells the value.
\<close>

definition CodeChallengeMethodS256 :: string where
  "CodeChallengeMethodS256 = ''S256''"

text \<open>
  Modelled from the spec: \<open>model.ClaimDeviceSecretHash\<close> is a constant of package model;
  the spec names the claim \<open>ds_hash\<close>.
\<close>

definition ClaimDeviceSecretHash :: string where
  "ClaimDeviceSecretHash = ''ds_hash''"

text \<open>The reason of \<open>hook.WebHookDisallowed\<close>, taken from the kind's name.\<close>

definition WebHookDisallowed_Reason :: string where
  "WebHookDisallowed_Reason = ''WebHookDisallowed''"

subsection \<open>Data\<close>

text \<open>
  \<open>session.Type\<close> and \<open>oauth.GrantSessionKind\<close> are string types in Go; the handler only
  compares them with package constants, so they are datatypes with a constructor for every
  other value (for \<open>GrantSessionKind\<close>, the empty string the handler tests for).
\<close>

datatype session_Type = TypeIdentityProvider | TypeOfflineGrant | TypeOther string

datatype GrantSessionKind = GrantSessionKindEmpty | GrantSessionKindOffline | GrantSessionKindSession

datatype challenge_Purpose = PurposeApp2AppRequest | PurposeOther string

text \<open>A JWK is opaque to the handler: it is marshalled and handed on.\<close>

datatype jwk_Key = JWK string

record DPoPProof =
  JKT :: string

text \<open>
  The request context, as far as the handler reads it: \<open>dpop.GetDPoPProof(ctx)\<close> (nil when
  the request has none) and \<open>dpop.GetDPoPProofJKT(ctx)\<close> (a string and a flag).
\<close>

record Context =
  GetDPoPProof :: "DPoPProof option"
  GetDPoPProofJKT :: "string \<times> bool"

text \<open>\<open>config.OAuthClientConfig\<close>; \<open>IsPublic()\<close> and \<open>IsConfidential()\<close> are its methods.\<close>

record OAuthClientConfig =
  c_ClientID :: string
  c_GrantTypes :: "string list"
  c_IsPublic :: bool
  c_IsConfidential :: bool
  c_App2appEnabled :: bool
  c_App2appInsecureDeviceKeyBindingEnabled :: bool
  c_MaxConcurrentSession :: int

text \<open>
  \<open>protocol.TokenRequest\<close>, one field for each accessor the handler calls.
  \<open>DeviceInfo()\<close> returns a device-info blob or an error, kept by its message.
\<close>

record TokenRequest =
  r_GrantType :: string
  r_Code :: string
  r_CodeVerifier :: string
  r_ClientSecret :: string
  r_RefreshToken :: string
  r_JWT :: string
  r_ClientID :: string
  r_RedirectURI :: string
  r_CodeChallenge :: string
  r_CodeChallengeMethod :: string
  r_DeviceInfo :: "string + string"
  r_App2AppDeviceKeyJWT :: string

record AuthorizationRequest =
  ar_CodeChallenge :: string
  ar_Scope :: "string list"
  ar_Nonce :: string
  ar_SSOEnabled :: bool

record AuthenticationInfo =
  ai_UserID :: string
  ai_AuthenticatedAt :: time
  ai_AuthenticatedBySessionType :: session_Type
  ai_AuthenticatedBySessionID :: string
  ai_ShouldFireAuthenticatedEventWhenIssueOfflineGrant :: bool

record CodeGrant =
  cg_CodeHash :: string
  cg_AuthorizationID :: string
  cg_AuthorizationRequest :: AuthorizationRequest
  cg_AuthenticationInfo :: AuthenticationInfo
  cg_IDTokenHintSID :: string
  cg_DPoPJKT :: string
  cg_RedirectURI :: string
  cg_ExpireAt :: time

record SettingsActionGrant =
  sag_CodeHash :: string
  sag_AuthorizationRequest :: AuthorizationRequest
  sag_RedirectURI :: string
  sag_ExpireAt :: time

record Authorization =
  az_ID :: string
  az_UserID :: string
  az_Scopes :: "string list"

record OfflineGrant =
  og_ID :: string
  og_ClientID :: string
  og_UserID :: string
  og_AuthenticatedAt :: time
  og_DeviceSecretHash :: string
  og_App2AppDeviceKeyJWKJSON :: string

record app2app_Request =
  a2a_Challenge :: string
  a2a_Key :: jwk_Key

record IssueOfflineGrantOptions =
  o_Scopes :: "string list"
  o_AuthorizationID :: string
  o_AuthenticationInfo :: AuthenticationInfo
  o_IDPSessionID :: string
  o_DeviceInfo :: string
  o_SSOEnabled :: bool
  o_App2AppDeviceKey :: "jwk_Key option"
  o_IssueDeviceSecret :: bool
  o_DPoPJKT :: string

record IssueOfflineGrantRefreshTokenOptions =
  ro_Scopes :: "string list"
  ro_AuthorizationID :: string
  ro_DPoPJKT :: string

text \<open>\<open>oauth.ClientClientLike(client, scopes)\<close> pairs the client with the scopes.\<close>

record IssueIDTokenOptions =
  io_ClientID :: string
  io_SID :: string
  io_Nonce :: string
  io_AuthenticationInfo :: AuthenticationInfo
  io_ClientLike :: "OAuthClientConfig \<times> string list"
  io_DeviceSecretHash :: string

text \<open>
  The one event the embedded code dispatches: \<open>nonblocking.UserAuthenticatedEventPayload\<close>
  with the user's id, the session (the offline grant's API model) and the AdminAPI flag.
\<close>

datatype event_Payload = UserAuthenticatedEventPayload string OfflineGrant bool

text \<open>An ID token, as far as the handler reads it: \<open>idToken.Get(name)\<close>.\<close>

datatype claim_value = StringClaim string | OtherClaim

type_synonym jwt_Token = "string \<rightharpoonup> claim_value"

datatype httputil_Result = tokenResultOK TokenResponse | otherResult string

subsection \<open>The interfaces the handler is written against\<close>

record 's TokenHandlerCodeGrantStore =
  GetCodeGrant :: "string \<Rightarrow> 's \<Rightarrow> error + CodeGrant"
  DeleteCodeGrant :: "CodeGrant \<Rightarrow> 's \<Rightarrow> error option \<times> 's"

record 's TokenHandlerSettingsActionGrantStore =
  GetSettingsActionGrant :: "string \<Rightarrow> 's \<Rightarrow> error + SettingsActionGrant"
  DeleteSettingsActionGrant :: "SettingsActionGrant \<Rightarrow> 's \<Rightarrow> error option \<times> 's"

record 's TokenHandlerOfflineGrantStore =
  GetOfflineGrant :: "string \<Rightarrow> 's \<Rightarrow> error + OfflineGrant"
  UpdateOfflineGrantAuthenticatedAt ::
    "string \<Rightarrow> time \<Rightarrow> time \<Rightarrow> 's \<Rightarrow> (error + OfflineGrant) \<times> 's"
  UpdateOfflineGrantApp2AppDeviceKey ::
    "string \<Rightarrow> string \<Rightarrow> time \<Rightarrow> 's \<Rightarrow> (error + OfflineGrant) \<times> 's"
  UpdateOfflineGrantDeviceSecretHash ::
    "string \<Rightarrow> string \<Rightarrow> string \<Rightarrow> time \<Rightarrow> 's \<Rightarrow> (error + OfflineGrant) \<times> 's"
  ListClientOfflineGrants :: "string \<Rightarrow> string \<Rightarrow> 's \<Rightarrow> error + OfflineGrant list"

record 's TokenHandlerOfflineGrantService =
  ComputeOfflineGrantExpiry :: "OfflineGrant \<Rightarrow> 's \<Rightarrow> error + time"

text \<open>
  The token service writes the tokens it issues into the response it is given; the model
  hands the response in and gets the written response back. \<open>IssueOfflineGrant\<close> is also
  called with a nil response (\<open>None\<close>).
\<close>

record 's TokenHandlerTokenService =
  IssueAccessGrant ::
    "OAuthClientConfig \<Rightarrow> string list \<Rightarrow> string \<Rightarrow> string \<Rightarrow> string \<Rightarrow> GrantSessionKind
       \<Rightarrow> string \<Rightarrow> TokenResponse \<Rightarrow> 's \<Rightarrow> (error + TokenResponse) \<times> 's"
  IssueOfflineGrant ::
    "OAuthClientConfig \<Rightarrow> IssueOfflineGrantOptions \<Rightarrow> TokenResponse option \<Rightarrow> 's
       \<Rightarrow> (error + OfflineGrant \<times> string \<times> TokenResponse option) \<times> 's"
  IssueRefreshTokenForOfflineGrant ::
    "string \<Rightarrow> OAuthClientConfig \<Rightarrow> IssueOfflineGrantRefreshTokenOptions \<Rightarrow> TokenResponse \<Rightarrow> 's
       \<Rightarrow> (error + OfflineGrant \<times> string \<times> TokenResponse) \<times> 's"
  IssueDeviceSecret :: "TokenResponse \<Rightarrow> 's \<Rightarrow> (string \<times> TokenResponse) \<times> 's"

record 's IDTokenIssuer =
  IssueIDToken :: "IssueIDTokenOptions \<Rightarrow> 's \<Rightarrow> (error + string) \<times> 's"

record 's EventService =
  DispatchEventOnCommit :: "event_Payload \<Rightarrow> 's \<Rightarrow> error option \<times> 's"

record App2AppService =
  ParseTokenUnverified :: "string \<Rightarrow> error + app2app_Request"
  ParseToken :: "string \<Rightarrow> jwk_Key \<Rightarrow> error option"

record 's ChallengeProvider =
  Consume :: "string \<Rightarrow> 's \<Rightarrow> (error + challenge_Purpose) \<times> 's"

record 's AuthorizationService =
  GetByID :: "string \<Rightarrow> 's \<Rightarrow> error + Authorization"

record 's SessionManager =
  RevokeWithoutEvent :: "OfflineGrant \<Rightarrow> 's \<Rightarrow> error option \<times> 's"

record 's UIInfoResolver =
  ResolveForAuthorizationEndpoint ::
    "OAuthClientConfig \<Rightarrow> AuthorizationRequest \<Rightarrow> 's \<Rightarrow> error + string"

text \<open>
  \<open>OAuthClientCredentials.Lookup(clientID)\<close> is a map from the client's id to the key set
  of its credentials item (\<open>None\<close> when not ok).
  Functions and methods of other packages that the handler calls, taken as parameters:
  \<open>oauth.HashToken\<close>; the PKCE transform BASE64URL(SHA256(v)) and the check that
  \<open>pkce.NewS256Verifier\<close> makes on a verifier; \<open>CodeGrant.MatchDPoPJKT\<close> and
  \<open>OfflineGrant.MatchDeviceSecretDPoPJKT\<close>; \<open>oidc.DecodeSID\<close> (\<open>None\<close> when not ok) and
  \<open>oidc.EncodeSID\<close>; \<open>json.Marshal\<close> of a key; \<open>jwkutil.ExtractOctetKeys\<close> of a credentials
  item's key set; \<open>uiparam.WithUIParam\<close> of \<open>uiInfo.ToUIParam()\<close>.
\<close>

record 's Packages =
  HashToken :: "string \<Rightarrow> string"
  S256Challenge :: "string \<Rightarrow> string"
  validateCodeVerifier :: "string \<Rightarrow> error option"
  MatchDPoPJKT :: "CodeGrant \<Rightarrow> DPoPProof option \<Rightarrow> bool"
  MatchDeviceSecretDPoPJKT :: "OfflineGrant \<Rightarrow> DPoPProof option \<Rightarrow> bool"
  DecodeSID :: "string \<Rightarrow> (session_Type \<times> string) option"
  EncodeSID :: "OfflineGrant \<Rightarrow> string"
  json_Marshal :: "jwk_Key \<Rightarrow> error + string"
  ExtractOctetKeys :: "jwk_Key list \<Rightarrow> string list"
  WithUIParam :: "string \<Rightarrow> 's \<Rightarrow> 's"

record 's TokenHandler =
  OAuthClientCredentials :: "string \<rightharpoonup> jwk_Key list"
  Authorizations :: "'s AuthorizationService"
  CodeGrants :: "'s TokenHandlerCodeGrantStore"
  SettingsActionGrantStore :: "'s TokenHandlerSettingsActionGrantStore"
  OfflineGrants :: "'s TokenHandlerOfflineGrantStore"
  OfflineGrantService :: "'s TokenHandlerOfflineGrantService"
  IDTokenIssuer :: "'s IDTokenIssuer"
  NowUTC :: "'s \<Rightarrow> time"
  TokenService :: "'s TokenHandlerTokenService"
  Events :: "'s EventService"
  SessionManager :: "'s SessionManager"
  App2App :: App2AppService
  Challenges :: "'s ChallengeProvider"
  UIInfoResolver :: "'s UIInfoResolver"
  Pkg :: "'s Packages"

subsection \<open>Library functions\<close>

text \<open>
  \<open>subtle.ConstantTimeCompare\<close> of the Go standard library: 1 if the two byte slices are
  equal, 0 otherwise.
\<close>

definition ConstantTimeCompare :: "string \<Rightarrow> string \<Rightarrow> int" where
  "ConstantTimeCompare x y = (if x = y then 1 else 0)"

text \<open>
  Modelled from the spec: \<open>oauth.ContainsAllScopes(scopes, required)\<close> is a function of
  package oauth; the spec reads it as "the authorized scopes include" the required ones.
\<close>

definition ContainsAllScopes :: "string list \<Rightarrow> string list \<Rightarrow> bool" where
  "ContainsAllScopes scopes required = list_all (\<lambda>x. x \<in> set scopes) required"

text \<open>
  Modelled from the spec: \<open>pkce.NewS256Verifier\<close> and \<open>Verify\<close> are functions of package
  pkce. The constructor returns the verifier or an error; \<open>Verify\<close> compares the challenge
  with BASE64URL(SHA256(verifier)).
\<close>

datatype S256Verifier = S256Verifier string

definition NewS256Verifier :: "'s Packages \<Rightarrow> string \<Rightarrow> error + S256Verifier" where
  "NewS256Verifier p codeVerifier =
     (case validateCodeVerifier p codeVerifier of
        Some err \<Rightarrow> Inl err
      | None \<Rightarrow> Inr (S256Verifier codeVerifier))"

fun Verify :: "'s Packages \<Rightarrow> S256Verifier \<Rightarrow> string \<Rightarrow> bool" where
  "Verify p (S256Verifier codeVerifier) challenge =
     (ConstantTimeCompare challenge (S256Challenge p codeVerifier) = 1)"

subsection \<open>Device secret rotation (lines 396-454)\<close>

definition rotateDeviceSecret ::
  "'s TokenHandler \<Rightarrow> Context \<Rightarrow> OfflineGrant \<Rightarrow> TokenResponse \<Rightarrow> 's
     \<Rightarrow> (OfflineGrant \<times> TokenResponse) res \<times> 's" where
  "rotateDeviceSecret h ctx offlineGrant resp s =
     (let dpopJKT = fst (GetDPoPProofJKT ctx) in
      case IssueDeviceSecret (TokenService h) resp s of
        ((deviceSecretHash, resp1), s1) \<Rightarrow>
          (case ComputeOfflineGrantExpiry (OfflineGrantService h) offlineGrant s1 of
             Inl err \<Rightarrow> (Err err, s1)
           | Inr expiry \<Rightarrow>
               (case UpdateOfflineGrantDeviceSecretHash (OfflineGrants h)
                       (og_ID offlineGrant) deviceSecretHash dpopJKT expiry s1 of
                  (Inl err, s2) \<Rightarrow> (Err err, s2)
                | (Inr newGrant, s2) \<Rightarrow> (Ok (newGrant, resp1), s2))))"

text \<open>
  The result is the grant, the flag "rotated" and the response (which the rotation writes
  the new device secret into).
\<close>

definition rotateDeviceSecretIfSufficientScope ::
  "'s TokenHandler \<Rightarrow> Context \<Rightarrow> string list \<Rightarrow> OfflineGrant \<Rightarrow> TokenResponse \<Rightarrow> 's
     \<Rightarrow> (OfflineGrant \<times> bool \<times> TokenResponse) res \<times> 's" where
  "rotateDeviceSecretIfSufficientScope h ctx authorizedScopes offlineGrant resp s =
     (if \<not> ContainsAllScopes authorizedScopes [DeviceSSOScope]
      then (Ok (offlineGrant, False, resp), s)
      else
        (case rotateDeviceSecret h ctx offlineGrant resp s of
           (Panic m, s1) \<Rightarrow> (Panic m, s1)
         | (Err err, s1) \<Rightarrow> (Err err, s1)
         | (Ok (newOfflineGrant, resp1), s1) \<Rightarrow> (Ok (newOfflineGrant, True, resp1), s1)))"

definition rotateDeviceSecretIfDeviceSecretIsPresentAndValid ::
  "'s TokenHandler \<Rightarrow> Context \<Rightarrow> string \<Rightarrow> string list \<Rightarrow> OfflineGrant \<Rightarrow> TokenResponse \<Rightarrow> 's
     \<Rightarrow> (OfflineGrant \<times> bool \<times> TokenResponse) res \<times> 's" where
  "rotateDeviceSecretIfDeviceSecretIsPresentAndValid h ctx deviceSecret authorizedScopes
       offlineGrant resp s =
     (if deviceSecret = '''' then (Ok (offlineGrant, False, resp), s)
      else if ConstantTimeCompare (HashToken (Pkg h) deviceSecret)
                (og_DeviceSecretHash offlineGrant) \<noteq> 1
      then (Ok (offlineGrant, False, resp), s)
      else rotateDeviceSecretIfSufficientScope h ctx authorizedScopes offlineGrant resp s)"

subsection \<open>App2app device key binding (lines 456-487)\<close>

definition app2appUpdateDeviceKeyIfNeeded ::
  "'s TokenHandler \<Rightarrow> OAuthClientConfig \<Rightarrow> OfflineGrant \<Rightarrow> jwk_Key option \<Rightarrow> 's
     \<Rightarrow> OfflineGrant res \<times> 's" where
  "app2appUpdateDeviceKeyIfNeeded h client offlineGrant app2AppDeviceKey s =
     (case app2AppDeviceKey of
        None \<Rightarrow> (Ok offlineGrant, s)
      | Some key \<Rightarrow>
          if \<not> c_App2appEnabled client then (Ok offlineGrant, s)
          else
            (case json_Marshal (Pkg h) key of
               Inl err \<Rightarrow> (Err err, s)
             | Inr newKeyJson \<Rightarrow>
                 (let isSameKey =
                        (ConstantTimeCompare newKeyJson (og_App2AppDeviceKeyJWKJSON offlineGrant) \<noteq> 0)
                  in if isSameKey then (Ok offlineGrant, s)
                     else if \<not> c_App2appInsecureDeviceKeyBindingEnabled client
                     then (Err (OAuthProtocolError ''invalid_request''
                             ''x_app2app_insecure_device_key_binding_enabled must be true to allow updating x_app2app_device_key_jwt''), s)
                     else if og_App2AppDeviceKeyJWKJSON offlineGrant \<noteq> ''''
                     then (Err (OAuthProtocolError ''invalid_grant''
                             ''app2app device key cannot be changed''), s)
                     else
                       (case ComputeOfflineGrantExpiry (OfflineGrantService h) offlineGrant s of
                          Inl err \<Rightarrow> (Err err, s)
                        | Inr expiry \<Rightarrow>
                            (case UpdateOfflineGrantApp2AppDeviceKey (OfflineGrants h)
                                    (og_ID offlineGrant) newKeyJson expiry s of
                               (Inl err, s1) \<Rightarrow> (Err err, s1)
                             | (Inr newGrant, s1) \<Rightarrow> (Ok newGrant, s1))))))"

subsection \<open>Device secret verification of the pre-authenticated URL exchange (lines 694-717)\<close>

text \<open>
  The body is a straight line of five \<open>if\<close> statements, none of which returns: \<open>err\<close>
  starts nil, each failing check overwrites it, and \<open>err\<close> is returned at the end. A failed
  type assertion leaves \<open>dsHash\<close> the empty string.

  Which checks a call evaluates is an effect of the call, not part of the returned error.
  To make it a value, the local state of the function is the pair of \<open>err\<close> and the log of
  the checks evaluated so far, each with its outcome (\<open>True\<close> when the check passes), and
  the function returns that pair: the first component is the error the Go function
  returns.
\<close>

datatype check =
    DsHashPresent
  | DsHashIsString
  | DsHashMatchesDeviceSecret
  | GrantMatchesDeviceSecret
  | DPoPMatchesGrant

type_synonym verification = "error option \<times> (check \<times> bool) list"

text \<open>
  The statement \<open>if failed { err = e }\<close>, where \<open>failed\<close> is the value of the condition: the
  condition is evaluated and logged, and the execution goes on to the next statement.
\<close>

definition evaluated :: "check \<Rightarrow> bool \<Rightarrow> error \<Rightarrow> verification \<Rightarrow> verification" where
  "evaluated c failed e st =
     (case st of (err, checks) \<Rightarrow> (if failed then Some e else err, checks @ [(c, \<not> failed)]))"

definition verifyIDTokenDeviceSecretHash ::
  "'s TokenHandler \<Rightarrow> Context \<Rightarrow> OfflineGrant \<Rightarrow> jwt_Token \<Rightarrow> string \<Rightarrow> verification" where
  "verifyIDTokenDeviceSecretHash h ctx offlineGrant idToken deviceSecret =
     (let st0 = (None, []);
          deviceSecretHash = HashToken (Pkg h) deviceSecret;
          dsHashInterface = idToken ClaimDeviceSecretHash;
          st1 = evaluated DsHashPresent (dsHashInterface = None)
                  (OAuthProtocolError ''invalid_grant''
                     ''expected ds_hash to be present in id token (subject_token)'') st0;
          dsHash = (case dsHashInterface of Some (StringClaim v) \<Rightarrow> v | _ \<Rightarrow> '''');
          ok = (case dsHashInterface of Some (StringClaim v) \<Rightarrow> True | _ \<Rightarrow> False);
          st2 = evaluated DsHashIsString (\<not> ok)
                  (OAuthProtocolError ''invalid_grant'' ''expected ds_hash to be a string'') st1;
          st3 = evaluated DsHashMatchesDeviceSecret
                  (ConstantTimeCompare dsHash deviceSecretHash \<noteq> 1)
                  (OAuthProtocolError ''invalid_grant''
                     ''the hash of device_secret (actor_token) does not match ds_hash in id token (subject_token)'')
                  st2;
          st4 = evaluated GrantMatchesDeviceSecret
                  (ConstantTimeCompare (og_DeviceSecretHash offlineGrant) deviceSecretHash \<noteq> 1)
                  (OAuthProtocolError ''invalid_grant''
                     ''the device_secret (actor_token) does not bind to the session'') st3;
          dpopProof = GetDPoPProof ctx;
          st5 = evaluated DPoPMatchesGrant
                  (\<not> MatchDeviceSecretDPoPJKT (Pkg h) offlineGrant dpopProof)
                  ErrInvalidDPoPKeyBinding st4
      in st5)"

subsection \<open>Request validation and dispatch (lines 256-364)\<close>

definition validateRequest :: "TokenRequest \<Rightarrow> OAuthClientConfig \<Rightarrow> error option" where
  "validateRequest r client =
     (if r_GrantType r = SettingsActionGrantType \<or> r_GrantType r = AuthorizationCodeGrantType
      then
        (if r_Code r = ''''
         then Some (OAuthProtocolError ''invalid_request'' ''code is required'')
         else if c_IsPublic client \<and> r_CodeVerifier r = ''''
         then Some (OAuthProtocolError ''invalid_request'' ''PKCE code verifier is required'')
         else if c_IsConfidential client \<and> r_ClientSecret r = ''''
         then Some (OAuthProtocolError ''invalid_request'' ''client secret is required'')
         else None)
      else if r_GrantType r = RefreshTokenGrantType
      then
        (if r_RefreshToken r = ''''
         then Some (OAuthProtocolError ''invalid_request'' ''refresh token is required'')
         else None)
      else if r_GrantType r = AnonymousRequestGrantType
      then
        (if r_JWT r = ''''
         then Some (OAuthProtocolError ''invalid_request'' ''jwt is required'')
         else None)
      else if r_GrantType r = BiometricRequestGrantType
      then
        (if r_JWT r = ''''
         then Some (OAuthProtocolError ''invalid_request'' ''jwt is required'')
         else None)
      else if r_GrantType r = App2AppRequestGrantType
      then
        (if r_JWT r = ''''
         then Some (OAuthProtocolError ''invalid_request'' ''jwt is required'')
         else if r_RefreshToken r = ''''
         then Some (OAuthProtocolError ''invalid_request'' ''refresh token is required'')
         else if r_ClientID r = ''''
         then Some (OAuthProtocolError ''invalid_request'' ''client id is required'')
         else if r_RedirectURI r = ''''
         then Some (OAuthProtocolError ''invalid_request'' ''redirect uri is required'')
         else if r_CodeChallenge r \<noteq> '''' \<and> r_CodeChallengeMethod r \<noteq> CodeChallengeMethodS256
         then Some (OAuthProtocolError ''invalid_request''
                ''only 'S256' PKCE transform is supported'')
         else None)
      else if r_GrantType r = IDTokenGrantType then None
      else if r_GrantType r = TokenExchangeGrantType then None
      else Some (OAuthProtocolError ''unsupported_grant_type'' ''grant type is not supported''))"

text \<open>
  The loop \<open>for _, x := range xs { if k == x { ok = true; break } }\<close>, which the handler
  runs over the allowed grant types and over the client's grant types.
\<close>

primrec foundInList :: "string \<Rightarrow> string list \<Rightarrow> bool" where
  "foundInList k [] = False"
| "foundInList k (x # xs) = (if k = x then True else foundInList k xs)"

subsection \<open>The checks shared by the two code exchanges\<close>

text \<open>The PKCE block (lines 544-554 and 1833-1843); \<open>None\<close> when the exchange goes on.\<close>

definition needVerifyPKCE :: "OAuthClientConfig \<Rightarrow> AuthorizationRequest \<Rightarrow> TokenRequest \<Rightarrow> bool" where
  "needVerifyPKCE client authorizationRequest r =
     (c_IsPublic client \<or> ar_CodeChallenge authorizationRequest \<noteq> '''' \<or> r_CodeVerifier r \<noteq> '''')"

definition verifyPKCE ::
  "'s TokenHandler \<Rightarrow> OAuthClientConfig \<Rightarrow> AuthorizationRequest \<Rightarrow> TokenRequest \<Rightarrow> error option" where
  "verifyPKCE h client authorizationRequest r =
     (if needVerifyPKCE client authorizationRequest r
      then
        (case NewS256Verifier (Pkg h) (r_CodeVerifier r) of
           Inl err \<Rightarrow> Some errInvalidAuthzCode
         | Inr v \<Rightarrow>
             if \<not> Verify (Pkg h) v (ar_CodeChallenge authorizationRequest)
             then Some errInvalidAuthzCode
             else None)
      else None)"

text \<open>
  The client secret block (lines 556-577 and 1845-1866). The loop over the keys does not
  stop at the first match.
\<close>

definition verifyClientSecret ::
  "'s TokenHandler \<Rightarrow> OAuthClientConfig \<Rightarrow> TokenRequest \<Rightarrow> error option" where
  "verifyClientSecret h client r =
     (let needClientSecret = c_IsConfidential client in
      if needClientSecret
      then
        (if r_ClientSecret r = ''''
         then Some (OAuthProtocolError ''invalid_request'' ''invalid client secret'')
         else
           (case OAuthClientCredentials h (c_ClientID client) of
              None \<Rightarrow> Some (OAuthProtocolError ''invalid_request''
                         ''client secret is not supported for the client'')
            | Some credentialsItemSet \<Rightarrow>
                (let keys = ExtractOctetKeys (Pkg h) credentialsItemSet;
                     pass = foldl (\<lambda>pass clientSecret.
                              if ConstantTimeCompare (r_ClientSecret r) clientSecret = 1
                              then True else pass) False keys
                 in if \<not> pass
                    then Some (OAuthProtocolError ''invalid_request'' ''invalid client secret'')
                    else None)))
      else None)"

subsection \<open>Issuing an offline grant (lines 1409-1443)\<close>

text \<open>The loop of \<open>revokeClientOfflineGrants\<close>: the first error ends it.\<close>

fun revokeEach :: "'s TokenHandler \<Rightarrow> OfflineGrant list \<Rightarrow> 's \<Rightarrow> error option \<times> 's" where
  "revokeEach h [] s = (None, s)"
| "revokeEach h (offlineGrant # rest) s =
     (case RevokeWithoutEvent (SessionManager h) offlineGrant s of
        (Some err, s1) \<Rightarrow> (Some err, s1)
      | (None, s1) \<Rightarrow> revokeEach h rest s1)"

definition revokeClientOfflineGrants ::
  "'s TokenHandler \<Rightarrow> OAuthClientConfig \<Rightarrow> string \<Rightarrow> 's \<Rightarrow> error option \<times> 's" where
  "revokeClientOfflineGrants h client userID s =
     (case ListClientOfflineGrants (OfflineGrants h) (c_ClientID client) userID s of
        Inl err \<Rightarrow> (Some err, s)
      | Inr offlineGrants \<Rightarrow> revokeEach h offlineGrants s)"

definition issueOfflineGrant ::
  "'s TokenHandler \<Rightarrow> OAuthClientConfig \<Rightarrow> string \<Rightarrow> TokenResponse option
     \<Rightarrow> IssueOfflineGrantOptions \<Rightarrow> bool \<Rightarrow> 's
     \<Rightarrow> (OfflineGrant \<times> string \<times> TokenResponse option) res \<times> 's" where
  "issueOfflineGrant h client userID resp opts revokeExistingGrants s =
     (case (if revokeExistingGrants \<and> c_MaxConcurrentSession client = 1
            then revokeClientOfflineGrants h client userID s
            else (None, s)) of
        (Some err, s1) \<Rightarrow> (Err err, s1)
      | (None, s1) \<Rightarrow>
          (case IssueOfflineGrant (TokenService h) client opts resp s1 of
             (Inl err, s2) \<Rightarrow> (Err err, s2)
           | (Inr (offlineGrant, tokenHash, resp1), s2) \<Rightarrow>
               (Ok (offlineGrant, tokenHash, resp1), s2)))"

subsection \<open>The app2app device key of a request (lines 368-394)\<close>

definition app2appVerifyAndConsumeChallenge ::
  "'s TokenHandler \<Rightarrow> string \<Rightarrow> 's \<Rightarrow> app2app_Request res \<times> 's" where
  "app2appVerifyAndConsumeChallenge h jwt s =
     (case ParseTokenUnverified (App2App h) jwt of
        Inl err \<Rightarrow> (Err (OAuthProtocolError ''invalid_request'' ''invalid app2app jwt payload''), s)
      | Inr app2appToken \<Rightarrow>
          (case Consume (Challenges h) (a2a_Challenge app2appToken) s of
             (Inl err, s1) \<Rightarrow>
               (Err (OAuthProtocolError ''invalid_request'' ''invalid app2app jwt challenge''), s1)
           | (Inr purpose, s1) \<Rightarrow>
               if purpose \<noteq> PurposeApp2AppRequest
               then (Err (OAuthProtocolError ''invalid_request'' ''invalid app2app jwt challenge''), s1)
               else (Ok app2appToken, s1)))"

definition app2appGetDeviceKeyJWKVerified ::
  "'s TokenHandler \<Rightarrow> string \<Rightarrow> 's \<Rightarrow> jwk_Key res \<times> 's" where
  "app2appGetDeviceKeyJWKVerified h jwt s =
     (case app2appVerifyAndConsumeChallenge h jwt s of
        (Panic m, s1) \<Rightarrow> (Panic m, s1)
      | (Err err, s1) \<Rightarrow> (Err err, s1)
      | (Ok app2appToken, s1) \<Rightarrow>
          (let key = a2a_Key app2appToken in
           case ParseToken (App2App h) jwt key of
             Some err \<Rightarrow>
               (Err (OAuthProtocolError ''invalid_request'' ''invalid app2app jwt signature''), s1)
           | None \<Rightarrow> (Ok key, s1)))"

subsection \<open>Small helpers (lines 1769-1788)\<close>

definition translateAccessTokenError :: "error \<Rightarrow> error" where
  "translateAccessTokenError err =
     (case err of
        APIError reason \<Rightarrow>
          if reason = WebHookDisallowed_Reason
          then OAuthProtocolError ''server_error'' ''access token generation is disallowed by hook''
          else err
      | _ \<Rightarrow> err)"

definition shouldIssueDeviceSecret :: "string list \<Rightarrow> bool" where
  "shouldIssueDeviceSecret scopes =
     foldl (\<lambda>issueDeviceToken scope. if scope = DeviceSSOScope then True else issueDeviceToken)
       False scopes"

text \<open>
  Modelled from the spec: \<open>resp.IDToken(v)\<close> is a setter of \<open>protocol.TokenResponse\<close>; the
  spec names the response field \<open>id_token\<close>.
\<close>

definition resp_IDToken :: "TokenResponse \<Rightarrow> string \<Rightarrow> TokenResponse" where
  "resp_IDToken resp v = resp(''id_token'' \<mapsto> v)"

subsection \<open>Issuing the tokens of an authorization code (lines 1446-1687)\<close>

text \<open>
  Lines 1454-1478: what to issue. The loop over the scopes sets the two flags; a refresh
  token is issued only if the client's grant types list \<open>refresh_token\<close>.
\<close>

definition scopeFlags :: "string list \<Rightarrow> bool \<times> bool" where
  "scopeFlags scopes =
     foldl (\<lambda>(issueRefreshToken, issueIDToken) scope.
              if scope = OfflineAccess then (True, issueIDToken)
              else if scope = ''openid'' then (issueRefreshToken, True)
              else (issueRefreshToken, issueIDToken))
       (False, False) scopes"

definition issueRefreshTokenFlag :: "OAuthClientConfig \<Rightarrow> string list \<Rightarrow> bool" where
  "issueRefreshTokenFlag client scopes =
     (let issueRefreshToken = fst (scopeFlags scopes) in
      if issueRefreshToken
      then (let allowRefreshToken = foundInList RefreshTokenGrantType (c_GrantTypes client)
            in if \<not> allowRefreshToken then False else issueRefreshToken)
      else issueRefreshToken)"

text \<open>Lines 1482-1489: the app2app device key of the request, verified.\<close>

definition requestApp2appDevicePublicKey ::
  "'s TokenHandler \<Rightarrow> OAuthClientConfig \<Rightarrow> string \<Rightarrow> 's \<Rightarrow> jwk_Key option res \<times> 's" where
  "requestApp2appDevicePublicKey h client app2appDeviceKeyJWT s =
     (if app2appDeviceKeyJWT \<noteq> '''' \<and> c_App2appEnabled client
      then
        (case app2appGetDeviceKeyJWKVerified h app2appDeviceKeyJWT s of
           (Panic m, s1) \<Rightarrow> (Panic m, s1)
         | (Err err, s1) \<Rightarrow> (Err err, s1)
         | (Ok k, s1) \<Rightarrow> (Ok (Some k), s1))
      else (Ok None, s))"

text \<open>
  Lines 1495-1528: reauthentication. When the code carries the SID of an offline grant that
  the store still has, its auth\_time, device secret and app2app device key are updated. The
  result is the response, which a rotation writes the new device secret into.
\<close>

definition reauthOfflineGrant ::
  "'s TokenHandler \<Rightarrow> Context \<Rightarrow> OAuthClientConfig \<Rightarrow> CodeGrant \<Rightarrow> jwk_Key option
     \<Rightarrow> TokenResponse \<Rightarrow> 's \<Rightarrow> TokenResponse res \<times> 's" where
  "reauthOfflineGrant h ctx client code app2appDevicePublicKey resp s =
     (let info = cg_AuthenticationInfo code;
          scopes = ar_Scope (cg_AuthorizationRequest code);
          sid = cg_IDTokenHintSID code
      in
      if sid = '''' then (Ok resp, s)
      else
        (case DecodeSID (Pkg h) sid of
           None \<Rightarrow> (Ok resp, s)
         | Some (typ, sessionID) \<Rightarrow>
             if typ \<noteq> TypeOfflineGrant then (Ok resp, s)
             else
               (case GetOfflineGrant (OfflineGrants h) sessionID s of
                  Inl err \<Rightarrow> (Ok resp, s)
                | Inr offlineGrant \<Rightarrow>
                    (case (if ai_AuthenticatedAt info > og_AuthenticatedAt offlineGrant
                           then
                             (case ComputeOfflineGrantExpiry (OfflineGrantService h) offlineGrant s of
                                Inl err \<Rightarrow> (Some err, s)
                              | Inr expiry \<Rightarrow>
                                  (case UpdateOfflineGrantAuthenticatedAt (OfflineGrants h)
                                          (og_ID offlineGrant) (ai_AuthenticatedAt info) expiry s of
                                     (Inl err, s1) \<Rightarrow> (Some err, s1)
                                   | (Inr updated, s1) \<Rightarrow> (None, s1)))
                           else (None, s)) of
                       (Some err, s1) \<Rightarrow> (Err err, s1)
                     | (None, s1) \<Rightarrow>
                         (case rotateDeviceSecretIfSufficientScope h ctx scopes offlineGrant resp s1 of
                            (Panic m, s2) \<Rightarrow> (Panic m, s2)
                          | (Err err, s2) \<Rightarrow> (Err err, s2)
                          | (Ok (rotatedGrant, rotated, resp1), s2) \<Rightarrow>
                              (case app2appDevicePublicKey of
                                 None \<Rightarrow> (Ok resp1, s2)
                               | Some key \<Rightarrow>
                                   (case app2appUpdateDeviceKeyIfNeeded h client rotatedGrant
                                           (Some key) s2 of
                                      (Panic m, s3) \<Rightarrow> (Panic m, s3)
                                    | (Err err, s3) \<Rightarrow> (Err err, s3)
                                    | (Ok updated, s3) \<Rightarrow> (Ok resp1, s3))))))))"

text \<open>
  Lines 1530-1648: the session behind the access token. The result is the SID, the session's
  id and kind, the refresh token's hash, the device secret's hash and the response.
  A response handed to the token service is the same map after the call.
\<close>

record accessTokenSession =
  ats_sid :: string
  ats_accessTokenSessionID :: string
  ats_accessTokenSessionKind :: GrantSessionKind
  ats_refreshTokenHash :: string
  ats_deviceSecretHash :: string
  ats_resp :: TokenResponse

definition selectAccessTokenSession ::
  "'s TokenHandler \<Rightarrow> Context \<Rightarrow> OAuthClientConfig \<Rightarrow> CodeGrant \<Rightarrow> Authorization \<Rightarrow> string
     \<Rightarrow> jwk_Key option \<Rightarrow> TokenResponse \<Rightarrow> 's \<Rightarrow> accessTokenSession res \<times> 's" where
  "selectAccessTokenSession h ctx client code authz deviceInfo app2appDevicePublicKey resp s =
     (let info = cg_AuthenticationInfo code;
          scopes = ar_Scope (cg_AuthorizationRequest code);
          issueRefreshToken = issueRefreshTokenFlag client scopes;
          issueDeviceToken = shouldIssueDeviceSecret scopes;
          dpopJKT = fst (GetDPoPProofJKT ctx);
          offlineGrantIDPSessionID =
            (case ai_AuthenticatedBySessionType info of
               TypeIdentityProvider \<Rightarrow> ai_AuthenticatedBySessionID info
             | _ \<Rightarrow> '''');
          opts = \<lparr> o_Scopes = scopes, o_AuthorizationID = az_ID authz,
                   o_AuthenticationInfo = info, o_IDPSessionID = offlineGrantIDPSessionID,
                   o_DeviceInfo = deviceInfo,
                   o_SSOEnabled = ar_SSOEnabled (cg_AuthorizationRequest code),
                   o_App2AppDeviceKey = app2appDevicePublicKey,
                   o_IssueDeviceSecret = issueDeviceToken, o_DPoPJKT = dpopJKT \<rparr>
      in
      if issueRefreshToken
      then
        (case (case ai_AuthenticatedBySessionType info of
                 TypeOfflineGrant \<Rightarrow>
                   (case IssueRefreshTokenForOfflineGrant (TokenService h)
                           (ai_AuthenticatedBySessionID info) client
                           \<lparr> ro_Scopes = scopes, ro_AuthorizationID = az_ID authz,
                             ro_DPoPJKT = dpopJKT \<rparr> resp s of
                      (Inl err, s1) \<Rightarrow> (Err err, s1)
                    | (Inr (offlineGrant, tokenHash, resp1), s1) \<Rightarrow>
                        (Ok (offlineGrant, tokenHash, resp1), s1))
               | _ \<Rightarrow>
                   (case issueOfflineGrant h client (ai_UserID (cg_AuthenticationInfo code))
                           (Some resp) opts True s of
                      (Panic m, s1) \<Rightarrow> (Panic m, s1)
                    | (Err err, s1) \<Rightarrow> (Err err, s1)
                    | (Ok (offlineGrant, tokenHash, resp1), s1) \<Rightarrow>
                        (Ok (offlineGrant, tokenHash,
                             (case resp1 of Some written \<Rightarrow> written | None \<Rightarrow> resp)), s1))) of
           (Panic m, s1) \<Rightarrow> (Panic m, s1)
         | (Err err, s1) \<Rightarrow> (Err err, s1)
         | (Ok (offlineGrant, tokenHash, resp1), s1) \<Rightarrow>
             (let result = \<lparr> ats_sid = EncodeSID (Pkg h) offlineGrant,
                              ats_accessTokenSessionID = og_ID offlineGrant,
                              ats_accessTokenSessionKind = GrantSessionKindOffline,
                              ats_refreshTokenHash = tokenHash,
                              ats_deviceSecretHash = og_DeviceSecretHash offlineGrant,
                              ats_resp = resp1 \<rparr>
              in
              if ai_ShouldFireAuthenticatedEventWhenIssueOfflineGrant info
              then
                (case DispatchEventOnCommit (Events h)
                        (UserAuthenticatedEventPayload (az_UserID authz) offlineGrant False) s1 of
                   (Some err, s2) \<Rightarrow> (Err err, s2)
                 | (None, s2) \<Rightarrow> (Ok result, s2))
              else (Ok result, s1)))
      else if cg_IDTokenHintSID code \<noteq> ''''
      then
        (let sid = cg_IDTokenHintSID code in
         case DecodeSID (Pkg h) sid of
           None \<Rightarrow>
             (Ok \<lparr> ats_sid = sid, ats_accessTokenSessionID = '''',
                   ats_accessTokenSessionKind = GrantSessionKindEmpty,
                   ats_refreshTokenHash = '''', ats_deviceSecretHash = '''',
                   ats_resp = resp \<rparr>, s)
         | Some (typ, sessionID) \<Rightarrow>
             (case typ of
                TypeOfflineGrant \<Rightarrow>
                  (case GetOfflineGrant (OfflineGrants h) sessionID s of
                     Inl err \<Rightarrow> (Err err, s)
                   | Inr offlineGrant \<Rightarrow>
                       (Ok \<lparr> ats_sid = sid, ats_accessTokenSessionID = sessionID,
                             ats_accessTokenSessionKind = GrantSessionKindOffline,
                             ats_refreshTokenHash = '''',
                             ats_deviceSecretHash = og_DeviceSecretHash offlineGrant,
                             ats_resp = resp \<rparr>, s))
              | TypeIdentityProvider \<Rightarrow>
                  (Ok \<lparr> ats_sid = sid, ats_accessTokenSessionID = sessionID,
                        ats_accessTokenSessionKind = GrantSessionKindSession,
                        ats_refreshTokenHash = '''', ats_deviceSecretHash = '''',
                        ats_resp = resp \<rparr>, s)
              | TypeOther t \<Rightarrow> (Panic (''unknown session type: '' @ t), s)))
      else if c_IsConfidential client
      then
        (case issueOfflineGrant h client (ai_UserID (cg_AuthenticationInfo code))
                None opts False s of
           (Panic m, s1) \<Rightarrow> (Panic m, s1)
         | (Err err, s1) \<Rightarrow> (Err err, s1)
         | (Ok (offlineGrant, tokenHash, resp1), s1) \<Rightarrow>
             (Ok \<lparr> ats_sid = EncodeSID (Pkg h) offlineGrant,
                   ats_accessTokenSessionID = og_ID offlineGrant,
                   ats_accessTokenSessionKind = GrantSessionKindOffline,
                   ats_refreshTokenHash = '''', ats_deviceSecretHash = '''',
                   ats_resp = resp \<rparr>, s1))
      else
        (Ok \<lparr> ats_sid = '''', ats_accessTokenSessionID = '''',
              ats_accessTokenSessionKind = GrantSessionKindEmpty,
              ats_refreshTokenHash = '''', ats_deviceSecretHash = '''',
              ats_resp = resp \<rparr>, s))"

text \<open>Lines 1650-1686: the access token, then the ID token when \<open>openid\<close> was asked for.\<close>

definition issueAccessAndIDToken ::
  "'s TokenHandler \<Rightarrow> OAuthClientConfig \<Rightarrow> CodeGrant \<Rightarrow> Authorization \<Rightarrow> accessTokenSession
     \<Rightarrow> 's \<Rightarrow> TokenResponse res \<times> 's" where
  "issueAccessAndIDToken h client code authz a s =
     (let info = cg_AuthenticationInfo code;
          issueIDToken = snd (scopeFlags (ar_Scope (cg_AuthorizationRequest code)))
      in
      if ats_accessTokenSessionID a = '''' \<or> ats_accessTokenSessionKind a = GrantSessionKindEmpty
      then (Err (OAuthProtocolError ''invalid_request'' ''cannot issue access token''), s)
      else
        (case IssueAccessGrant (TokenService h) client (ar_Scope (cg_AuthorizationRequest code))
                (az_ID authz) (az_UserID authz) (ats_accessTokenSessionID a)
                (ats_accessTokenSessionKind a) (ats_refreshTokenHash a) (ats_resp a) s of
           (Inl err, s1) \<Rightarrow> (Err (translateAccessTokenError err), s1)
         | (Inr resp1, s1) \<Rightarrow>
             if issueIDToken
             then
               (if ats_sid a = ''''
                then (Err (OAuthProtocolError ''invalid_request'' ''cannot issue ID token''), s1)
                else
                  (case IssueIDToken (IDTokenIssuer h)
                          \<lparr> io_ClientID = c_ClientID client, io_SID = ats_sid a,
                            io_Nonce = ar_Nonce (cg_AuthorizationRequest code),
                            io_AuthenticationInfo = info,
                            io_ClientLike = (client, ar_Scope (cg_AuthorizationRequest code)),
                            io_DeviceSecretHash = ats_deviceSecretHash a \<rparr> s1 of
                     (Inl err, s2) \<Rightarrow> (Err err, s2)
                   | (Inr idToken, s2) \<Rightarrow> (Ok (resp_IDToken resp1 idToken), s2)))
             else (Ok resp1, s1)))"

text \<open>The function runs the four parts in the order of the source.\<close>

definition doIssueTokensForAuthorizationCode ::
  "'s TokenHandler \<Rightarrow> Context \<Rightarrow> OAuthClientConfig \<Rightarrow> CodeGrant \<Rightarrow> Authorization \<Rightarrow> string
     \<Rightarrow> string \<Rightarrow> 's \<Rightarrow> TokenResponse res \<times> 's" where
  "doIssueTokensForAuthorizationCode h ctx client code authz deviceInfo app2appDeviceKeyJWT s =
     (case requestApp2appDevicePublicKey h client app2appDeviceKeyJWT s of
        (Panic m, s1) \<Rightarrow> (Panic m, s1)
      | (Err err, s1) \<Rightarrow> (Err err, s1)
      | (Ok app2appDevicePublicKey, s1) \<Rightarrow>
          (case reauthOfflineGrant h ctx client code app2appDevicePublicKey Map.empty s1 of
             (Panic m, s2) \<Rightarrow> (Panic m, s2)
           | (Err err, s2) \<Rightarrow> (Err err, s2)
           | (Ok resp, s2) \<Rightarrow>
               (case selectAccessTokenSession h ctx client code authz deviceInfo
                       app2appDevicePublicKey resp s2 of
                  (Panic m, s3) \<Rightarrow> (Panic m, s3)
                | (Err err, s3) \<Rightarrow> (Err err, s3)
                | (Ok a, s3) \<Rightarrow> issueAccessAndIDToken h client code authz a s3)))"

subsection \<open>The authorization code exchange (lines 489-597)\<close>

definition IssueTokensForAuthorizationCode ::
  "'s TokenHandler \<Rightarrow> Context \<Rightarrow> OAuthClientConfig \<Rightarrow> TokenRequest \<Rightarrow> 's
     \<Rightarrow> TokenResponse res \<times> 's" where
  "IssueTokensForAuthorizationCode h ctx client r s =
     (case r_DeviceInfo r of
        Inl msg \<Rightarrow> (Err (OAuthProtocolError ''invalid_request'' msg), s)
      | Inr deviceInfo \<Rightarrow>
          (let codeHash = HashToken (Pkg h) (r_Code r) in
           case GetCodeGrant (CodeGrants h) codeHash s of
             Inl err \<Rightarrow>
               if err = ErrGrantNotFound then (Err errInvalidAuthzCode, s) else (Err err, s)
           | Inr codeGrant \<Rightarrow>
               (let dpopProof = GetDPoPProof ctx in
                if \<not> MatchDPoPJKT (Pkg h) codeGrant dpopProof
                then (Err ErrInvalidDPoPKeyBinding, s)
                else
                  (case ResolveForAuthorizationEndpoint (UIInfoResolver h) client
                          (cg_AuthorizationRequest codeGrant) s of
                     Inl err \<Rightarrow> (Err err, s)
                   | Inr uiInfo \<Rightarrow>
                       (let s1 = WithUIParam (Pkg h) uiInfo s in
                        if NowUTC h s1 > cg_ExpireAt codeGrant
                        then (Err errInvalidAuthzCode, s1)
                        else if cg_RedirectURI codeGrant \<noteq> r_RedirectURI r
                        then (Err (OAuthProtocolError ''invalid_request'' ''invalid redirect URI''), s1)
                        else
                          (case verifyPKCE h client (cg_AuthorizationRequest codeGrant) r of
                             Some err \<Rightarrow> (Err err, s1)
                           | None \<Rightarrow>
                               (case verifyClientSecret h client r of
                                  Some err \<Rightarrow> (Err err, s1)
                                | None \<Rightarrow>
                                    (case GetByID (Authorizations h)
                                            (cg_AuthorizationID codeGrant) s1 of
                                       Inl err \<Rightarrow>
                                         if err = ErrAuthorizationNotFound
                                         then (Err errInvalidAuthzCode, s1)
                                         else (Err err, s1)
                                     | Inr authz \<Rightarrow>
                                         (case doIssueTokensForAuthorizationCode h ctx client
                                                 codeGrant authz deviceInfo
                                                 (r_App2AppDeviceKeyJWT r) s1 of
                                            (Panic m, s2) \<Rightarrow> (Panic m, s2)
                                          | (Err err, s2) \<Rightarrow> (Err err, s2)
                                          | (Ok resp, s2) \<Rightarrow>
                                              (Ok resp,
                                               snd (DeleteCodeGrant (CodeGrants h)
                                                      codeGrant s2)))))))))))"

definition handleAuthorizationCode ::
  "'s TokenHandler \<Rightarrow> Context \<Rightarrow> OAuthClientConfig \<Rightarrow> TokenRequest \<Rightarrow> 's
     \<Rightarrow> httputil_Result res \<times> 's" where
  "handleAuthorizationCode h ctx client r s =
     (case IssueTokensForAuthorizationCode h ctx client r s of
        (Panic m, s1) \<Rightarrow> (Panic m, s1)
      | (Err err, s1) \<Rightarrow> (Err err, s1)
      | (Ok resp, s1) \<Rightarrow> (Ok (tokenResultOK resp), s1))"

subsection \<open>The settings action code exchange (lines 1790-1874)\<close>

definition IssueTokensForSettingsActionCode ::
  "'s TokenHandler \<Rightarrow> OAuthClientConfig \<Rightarrow> TokenRequest \<Rightarrow> 's \<Rightarrow> TokenResponse res \<times> 's" where
  "IssueTokensForSettingsActionCode h client r s =
     (let codeHash = HashToken (Pkg h) (r_Code r) in
      case GetSettingsActionGrant (SettingsActionGrantStore h) codeHash s of
        Inl err \<Rightarrow>
          if err = ErrGrantNotFound then (Err errInvalidAuthzCode, s) else (Err err, s)
      | Inr settingsActionGrant \<Rightarrow>
          (case ResolveForAuthorizationEndpoint (UIInfoResolver h) client
                  (sag_AuthorizationRequest settingsActionGrant) s of
             Inl err \<Rightarrow> (Err err, s)
           | Inr uiInfo \<Rightarrow>
               (let s1 = WithUIParam (Pkg h) uiInfo s in
                if NowUTC h s1 > sag_ExpireAt settingsActionGrant
                then (Err errInvalidAuthzCode, s1)
                else if sag_RedirectURI settingsActionGrant \<noteq> r_RedirectURI r
                then (Err (OAuthProtocolError ''invalid_request'' ''invalid redirect URI''), s1)
                else
                  (case verifyPKCE h client (sag_AuthorizationRequest settingsActionGrant) r of
                     Some err \<Rightarrow> (Err err, s1)
                   | None \<Rightarrow>
                       (case verifyClientSecret h client r of
                          Some err \<Rightarrow> (Err err, s1)
                        | None \<Rightarrow>
                            (Ok Map.empty,
                             snd (DeleteSettingsActionGrant (SettingsActionGrantStore h)
                                    settingsActionGrant s1)))))))"

definition handleSettingsActionCode ::
  "'s TokenHandler \<Rightarrow> OAuthClientConfig \<Rightarrow> TokenRequest \<Rightarrow> 's \<Rightarrow> httputil_Result res \<times> 's" where
  "handleSettingsActionCode h client r s =
     (case IssueTokensForSettingsActionCode h client r s of
        (Panic m, s1) \<Rightarrow> (Panic m, s1)
      | (Err err, s1) \<Rightarrow> (Err err, s1)
      | (Ok resp, s1) \<Rightarrow> (Ok (tokenResultOK resp), s1))"

subsection \<open>The dispatcher (lines 256-304)\<close>

text \<open>
  The handlers of the other grant types are not embedded; \<open>doHandle\<close> takes them as
  parameters, each returning its result or an error.
\<close>

record 's GrantHandlers =
  handleRefreshToken ::
    "Context \<Rightarrow> OAuthClientConfig \<Rightarrow> TokenRequest \<Rightarrow> 's \<Rightarrow> (error + TokenResponse) \<times> 's"
  handleTokenExchange ::
    "Context \<Rightarrow> OAuthClientConfig \<Rightarrow> TokenRequest \<Rightarrow> 's \<Rightarrow> (error + httputil_Result) \<times> 's"
  handleAnonymousRequest ::
    "Context \<Rightarrow> OAuthClientConfig \<Rightarrow> TokenRequest \<Rightarrow> 's \<Rightarrow> (error + httputil_Result) \<times> 's"
  handleBiometricRequest ::
    "Context \<Rightarrow> OAuthClientConfig \<Rightarrow> TokenRequest \<Rightarrow> 's \<Rightarrow> (error + httputil_Result) \<times> 's"
  handleApp2AppRequest ::
    "Context \<Rightarrow> OAuthClientConfig \<Rightarrow> TokenRequest \<Rightarrow> 's \<Rightarrow> (error + httputil_Result) \<times> 's"
  handleIDToken ::
    "Context \<Rightarrow> OAuthClientConfig \<Rightarrow> TokenRequest \<Rightarrow> 's \<Rightarrow> (error + httputil_Result) \<times> 's"

definition returned :: "(error + 'a) \<times> 's \<Rightarrow> 'a res \<times> 's" where
  "returned x = (case x of (Inl err, s) \<Rightarrow> (Err err, s) | (Inr v, s) \<Rightarrow> (Ok v, s))"

definition doHandle ::
  "'s TokenHandler \<Rightarrow> 's GrantHandlers \<Rightarrow> Context \<Rightarrow> OAuthClientConfig \<Rightarrow> TokenRequest \<Rightarrow> 's
     \<Rightarrow> httputil_Result res \<times> 's" where
  "doHandle h hs ctx client r s =
     (case validateRequest r client of
        Some err \<Rightarrow> (Err err, s)
      | None \<Rightarrow>
          (let allowedGrantTypes = c_GrantTypes client @ whitelistedGrantTypes;
               ok = foundInList (r_GrantType r) allowedGrantTypes
           in
           if \<not> ok
           then (Err (OAuthProtocolError ''unauthorized_client''
                        ''grant type is not allowed for this client''), s)
           else if r_GrantType r = AuthorizationCodeGrantType
           then handleAuthorizationCode h ctx client r s
           else if r_GrantType r = RefreshTokenGrantType
           then
             (case handleRefreshToken hs ctx client r s of
                (Inl err, s1) \<Rightarrow> (Err err, s1)
              | (Inr resp, s1) \<Rightarrow> (Ok (tokenResultOK resp), s1))
           else if r_GrantType r = TokenExchangeGrantType
           then returned (handleTokenExchange hs ctx client r s)
           else if r_GrantType r = AnonymousRequestGrantType
           then returned (handleAnonymousRequest hs ctx client r s)
           else if r_GrantType r = BiometricRequestGrantType
           then returned (handleBiometricRequest hs ctx client r s)
           else if r_GrantType r = App2AppRequestGrantType
           then returned (handleApp2AppRequest hs ctx client r s)
           else if r_GrantType r = IDTokenGrantType
           then returned (handleIDToken hs ctx client r s)
           else if r_GrantType r = SettingsActionGrantType
           then handleSettingsActionCode h client r s
           else (Panic ''oauth: unexpected grant type'', s)))"

subsection \<open>A reference implementation of the interfaces\<close>

text \<open>
  In-memory stores and a token service that issues fixed tokens, used to run the handler
  on concrete inputs. \<open>w_storeDown\<close> makes every deletion fail, as a store that is
  unreachable would.
\<close>

record world =
  w_now :: time
  w_codeGrants :: "CodeGrant list"
  w_settingsActionGrants :: "SettingsActionGrant list"
  w_offlineGrants :: "OfflineGrant list"
  w_authorizations :: "Authorization list"
  w_storeDown :: bool
  w_uiParam :: string
  w_revokedWithoutEvent :: "string list"

definition fake_CodeGrants :: "world TokenHandlerCodeGrantStore" where
  "fake_CodeGrants =
     \<lparr> GetCodeGrant = (\<lambda>codeHash w.
         case find (\<lambda>g. cg_CodeHash g = codeHash) (w_codeGrants w) of
           None \<Rightarrow> Inl ErrGrantNotFound
         | Some g \<Rightarrow> Inr g),
       DeleteCodeGrant = (\<lambda>g w.
         if w_storeDown w then (Some (OtherError ''store is down''), w)
         else (None, w\<lparr> w_codeGrants :=
                 filter (\<lambda>x. cg_CodeHash x \<noteq> cg_CodeHash g) (w_codeGrants w) \<rparr>)) \<rparr>"

definition fake_SettingsActionGrantStore :: "world TokenHandlerSettingsActionGrantStore" where
  "fake_SettingsActionGrantStore =
     \<lparr> GetSettingsActionGrant = (\<lambda>codeHash w.
         case find (\<lambda>g. sag_CodeHash g = codeHash) (w_settingsActionGrants w) of
           None \<Rightarrow> Inl ErrGrantNotFound
         | Some g \<Rightarrow> Inr g),
       DeleteSettingsActionGrant = (\<lambda>g w.
         if w_storeDown w then (Some (OtherError ''store is down''), w)
         else (None, w\<lparr> w_settingsActionGrants :=
                 filter (\<lambda>x. sag_CodeHash x \<noteq> sag_CodeHash g) (w_settingsActionGrants w) \<rparr>)) \<rparr>"

definition fake_update ::
  "string \<Rightarrow> (OfflineGrant \<Rightarrow> OfflineGrant) \<Rightarrow> world \<Rightarrow> (error + OfflineGrant) \<times> world" where
  "fake_update grantID f w =
     (case find (\<lambda>g. og_ID g = grantID) (w_offlineGrants w) of
        None \<Rightarrow> (Inl ErrGrantNotFound, w)
      | Some g \<Rightarrow>
          (Inr (f g),
           w\<lparr> w_offlineGrants :=
                 map (\<lambda>x. if og_ID x = grantID then f x else x) (w_offlineGrants w) \<rparr>))"

definition fake_OfflineGrants :: "world TokenHandlerOfflineGrantStore" where
  "fake_OfflineGrants =
     \<lparr> GetOfflineGrant = (\<lambda>grantID w.
         case find (\<lambda>g. og_ID g = grantID) (w_offlineGrants w) of
           None \<Rightarrow> Inl ErrGrantNotFound
         | Some g \<Rightarrow> Inr g),
       UpdateOfflineGrantAuthenticatedAt = (\<lambda>grantID authenticatedAt expireAt.
         fake_update grantID (\<lambda>g. g\<lparr> og_AuthenticatedAt := authenticatedAt \<rparr>)),
       UpdateOfflineGrantApp2AppDeviceKey = (\<lambda>grantID newKey expireAt.
         fake_update grantID (\<lambda>g. g\<lparr> og_App2AppDeviceKeyJWKJSON := newKey \<rparr>)),
       UpdateOfflineGrantDeviceSecretHash = (\<lambda>grantID newDeviceSecretHash dpopJKT expireAt.
         fake_update grantID (\<lambda>g. g\<lparr> og_DeviceSecretHash := newDeviceSecretHash \<rparr>)),
       ListClientOfflineGrants = (\<lambda>clientID userID w.
         Inr (filter (\<lambda>g. og_ClientID g = clientID \<and> og_UserID g = userID)
                (w_offlineGrants w))) \<rparr>"

definition fake_TokenService :: "world TokenHandlerTokenService" where
  "fake_TokenService =
     \<lparr> IssueAccessGrant = (\<lambda>client scopes authzID userID sessionID sessionKind refreshTokenHash
           resp w.
         (Inr (resp(''access_token'' \<mapsto> ''access-token:'' @ sessionID)), w)),
       IssueOfflineGrant = (\<lambda>client opts resp w.
         (let g = \<lparr> og_ID = ''new-grant'', og_ClientID = c_ClientID client,
                    og_UserID = ai_UserID (o_AuthenticationInfo opts),
                    og_AuthenticatedAt = ai_AuthenticatedAt (o_AuthenticationInfo opts),
                    og_DeviceSecretHash = '''', og_App2AppDeviceKeyJWKJSON = '''' \<rparr>
          in (Inr (g, ''h:refresh-token'',
                   map_option (\<lambda>m. m(''refresh_token'' \<mapsto> ''refresh-token'')) resp),
              w\<lparr> w_offlineGrants := g # w_offlineGrants w \<rparr>))),
       IssueRefreshTokenForOfflineGrant = (\<lambda>grantID client opts resp w.
         case find (\<lambda>g. og_ID g = grantID) (w_offlineGrants w) of
           None \<Rightarrow> (Inl ErrGrantNotFound, w)
         | Some g \<Rightarrow> (Inr (g, ''h:refresh-token'', resp(''refresh_token'' \<mapsto> ''refresh-token'')), w)),
       IssueDeviceSecret = (\<lambda>resp w.
         ((''h:new-device-secret'', resp(''device_secret'' \<mapsto> ''new-device-secret'')), w)) \<rparr>"

definition fake_decodeSID :: "string \<Rightarrow> (session_Type \<times> string) option" where
  "fake_decodeSID sid =
     (if take 3 sid = ''og:'' then Some (TypeOfflineGrant, drop 3 sid)
      else if take 4 sid = ''idp:'' then Some (TypeIdentityProvider, drop 4 sid)
      else None)"

definition fake_Pkg :: "world Packages" where
  "fake_Pkg =
     \<lparr> HashToken = (\<lambda>t. ''h:'' @ t),
       S256Challenge = (\<lambda>v. ''s256:'' @ v),
       validateCodeVerifier = (\<lambda>v. if v = '''' then Some (OtherError ''invalid code verifier'')
                                   else None),
       MatchDPoPJKT = (\<lambda>g proof. cg_DPoPJKT g = '''' \<or>
                         (case proof of None \<Rightarrow> False | Some p \<Rightarrow> JKT p = cg_DPoPJKT g)),
       MatchDeviceSecretDPoPJKT = (\<lambda>g proof. True),
       DecodeSID = fake_decodeSID,
       EncodeSID = (\<lambda>g. ''og:'' @ og_ID g),
       json_Marshal = (\<lambda>k. case k of JWK j \<Rightarrow> Inr j),
       ExtractOctetKeys = map (\<lambda>k. case k of JWK j \<Rightarrow> j),
       WithUIParam = (\<lambda>u w. w\<lparr> w_uiParam := u \<rparr>) \<rparr>"

definition fakeHandler :: "world TokenHandler" where
  "fakeHandler =
     \<lparr> OAuthClientCredentials = [''confidential-client'' \<mapsto> [JWK ''s3cret'']],
       Authorizations = \<lparr> GetByID = (\<lambda>authzID w.
         case find (\<lambda>a. az_ID a = authzID) (w_authorizations w) of
           None \<Rightarrow> Inl ErrAuthorizationNotFound
         | Some a \<Rightarrow> Inr a) \<rparr>,
       CodeGrants = fake_CodeGrants,
       SettingsActionGrantStore = fake_SettingsActionGrantStore,
       OfflineGrants = fake_OfflineGrants,
       OfflineGrantService = \<lparr> ComputeOfflineGrantExpiry = (\<lambda>g w. Inr (w_now w + 3600)) \<rparr>,
       IDTokenIssuer = \<lparr> IssueIDToken = (\<lambda>opts w. (Inr (''id-token:'' @ io_SID opts), w)) \<rparr>,
       NowUTC = w_now,
       TokenService = fake_TokenService,
       Events = \<lparr> DispatchEventOnCommit = (\<lambda>payload w. (None, w)) \<rparr>,
       SessionManager = \<lparr> RevokeWithoutEvent = (\<lambda>g w.
         (None, w\<lparr> w_offlineGrants := filter (\<lambda>x. og_ID x \<noteq> og_ID g) (w_offlineGrants w),
                   w_revokedWithoutEvent := w_revokedWithoutEvent w @ [og_ID g] \<rparr>)) \<rparr>,
       App2App = \<lparr> ParseTokenUnverified = (\<lambda>jwt. Inr \<lparr> a2a_Challenge = jwt, a2a_Key = JWK jwt \<rparr>),
                   ParseToken = (\<lambda>jwt key. None) \<rparr>,
       Challenges = \<lparr> Consume = (\<lambda>token w. (Inr PurposeApp2AppRequest, w)) \<rparr>,
       UIInfoResolver = \<lparr> ResolveForAuthorizationEndpoint = (\<lambda>client ar w. Inr ''ui'') \<rparr>,
       Pkg = fake_Pkg \<rparr>"

definition fakeHandlers :: "world GrantHandlers" where
  "fakeHandlers =
     \<lparr> handleRefreshToken = (\<lambda>ctx client r w. (Inr Map.empty, w)),
       handleTokenExchange = (\<lambda>ctx client r w. (Inr (otherResult ''token-exchange''), w)),
       handleAnonymousRequest = (\<lambda>ctx client r w. (Inr (otherResult ''anonymous''), w)),
       handleBiometricRequest = (\<lambda>ctx client r w. (Inr (otherResult ''biometric''), w)),
       handleApp2AppRequest = (\<lambda>ctx client r w. (Inr (otherResult ''app2app''), w)),
       handleIDToken = (\<lambda>ctx client r w. (Inr (otherResult ''id-token''), w)) \<rparr>"

text \<open>Concrete inputs.\<close>

definition noProof :: Context where
  "noProof = \<lparr> GetDPoPProof = None, GetDPoPProofJKT = ('''', False) \<rparr>"

definition publicClient :: OAuthClientConfig where
  "publicClient =
     \<lparr> c_ClientID = ''public-client'', c_GrantTypes = [''authorization_code'', ''refresh_token''],
       c_IsPublic = True, c_IsConfidential = False, c_App2appEnabled = True,
       c_App2appInsecureDeviceKeyBindingEnabled = True, c_MaxConcurrentSession = 1 \<rparr>"

definition confidentialClient :: OAuthClientConfig where
  "confidentialClient =
     \<lparr> c_ClientID = ''confidential-client'', c_GrantTypes = [],
       c_IsPublic = False, c_IsConfidential = True, c_App2appEnabled = True,
       c_App2appInsecureDeviceKeyBindingEnabled = False, c_MaxConcurrentSession = 0 \<rparr>"

definition aliceInfo :: AuthenticationInfo where
  "aliceInfo =
     \<lparr> ai_UserID = ''alice'', ai_AuthenticatedAt = 90,
       ai_AuthenticatedBySessionType = TypeIdentityProvider,
       ai_AuthenticatedBySessionID = ''idp-session'',
       ai_ShouldFireAuthenticatedEventWhenIssueOfflineGrant = False \<rparr>"

definition aliceCodeGrant :: CodeGrant where
  "aliceCodeGrant =
     \<lparr> cg_CodeHash = ''h:code-1'', cg_AuthorizationID = ''authz-1'',
       cg_AuthorizationRequest =
         \<lparr> ar_CodeChallenge = ''s256:verifier-1'', ar_Scope = [''openid'', ''offline_access''],
           ar_Nonce = ''n'', ar_SSOEnabled = False \<rparr>,
       cg_AuthenticationInfo = aliceInfo,
       cg_IDTokenHintSID = '''', cg_DPoPJKT = '''',
       cg_RedirectURI = ''https://app/cb'', cg_ExpireAt = 200 \<rparr>"

definition aliceGrant :: "string \<Rightarrow> OfflineGrant" where
  "aliceGrant grantID =
     \<lparr> og_ID = grantID, og_ClientID = ''public-client'', og_UserID = ''alice'',
       og_AuthenticatedAt = 50, og_DeviceSecretHash = ''h:device-secret'',
       og_App2AppDeviceKeyJWKJSON = ''key-1'' \<rparr>"

text \<open>A settings action grant under the same code, request, redirect URI and expiry.\<close>

definition aliceSettingsActionGrant :: SettingsActionGrant where
  "aliceSettingsActionGrant =
     \<lparr> sag_CodeHash = ''h:code-1'',
       sag_AuthorizationRequest = cg_AuthorizationRequest aliceCodeGrant,
       sag_RedirectURI = ''https://app/cb'', sag_ExpireAt = 200 \<rparr>"

definition world0 :: world where
  "world0 =
     \<lparr> w_now = 100, w_codeGrants = [aliceCodeGrant],
       w_settingsActionGrants = [aliceSettingsActionGrant],
       w_offlineGrants = [aliceGrant ''grant-1'', aliceGrant ''grant-2''],
       w_authorizations =
         [\<lparr> az_ID = ''authz-1'', az_UserID = ''alice'',
            az_Scopes = [''openid'', ''offline_access''] \<rparr>],
       w_storeDown = False, w_uiParam = '''', w_revokedWithoutEvent = [] \<rparr>"

definition codeRequest :: TokenRequest where
  "codeRequest =
     \<lparr> r_GrantType = ''authorization_code'', r_Code = ''code-1'',
       r_CodeVerifier = ''verifier-1'', r_ClientSecret = '''', r_RefreshToken = '''',
       r_JWT = '''', r_ClientID = ''public-client'', r_RedirectURI = ''https://app/cb'',
       r_CodeChallenge = '''', r_CodeChallengeMethod = '''', r_DeviceInfo = Inr ''device'',
       r_App2AppDeviceKeyJWT = '''' \<rparr>"

definition offlineGrantOptions :: IssueOfflineGrantOptions where
  "offlineGrantOptions =
     \<lparr> o_Scopes = [''openid'', ''offline_access''], o_AuthorizationID = ''authz-1'',
       o_AuthenticationInfo = aliceInfo, o_IDPSessionID = ''idp-session'',
       o_DeviceInfo = ''device'', o_SSOEnabled = False, o_App2AppDeviceKey = None,
       o_IssueDeviceSecret = False, o_DPoPJKT = '''' \<rparr>"

text \<open>The exchange of the code \<open>code-1\<close> in \<open>world0\<close>: its response and the world after it.\<close>

definition newGrant :: "string \<Rightarrow> OfflineGrant" where
  "newGrant clientID =
     \<lparr> og_ID = ''new-grant'', og_ClientID = clientID, og_UserID = ''alice'',
       og_AuthenticatedAt = 90, og_DeviceSecretHash = '''', og_App2AppDeviceKeyJWKJSON = '''' \<rparr>"

definition issuedTokens :: TokenResponse where
  "issuedTokens =
     [''refresh_token'' \<mapsto> ''refresh-token'',
      ''access_token'' \<mapsto> ''access-token:new-grant'',
      ''id_token'' \<mapsto> ''id-token:og:new-grant'']"

definition world1 :: world where
  "world1 =
     world0\<lparr> w_codeGrants := [], w_offlineGrants := [newGrant ''public-client''],
              w_uiParam := ''ui'', w_revokedWithoutEvent := [''grant-1'', ''grant-2''] \<rparr>"

text \<open>The same code, bound to a DPoP key and expired.\<close>

definition expiredBoundWorld :: world where
  "expiredBoundWorld =
     world0\<lparr> w_codeGrants := [aliceCodeGrant\<lparr> cg_DPoPJKT := ''jkt-1'', cg_ExpireAt := 50 \<rparr>] \<rparr>"

text \<open>
  A code of a confidential client whose stored challenge is the transform of the empty
  verifier, and the request that exchanges it without a verifier.
\<close>

definition emptyVerifierRequest :: AuthorizationRequest where
  "emptyVerifierRequest = (cg_AuthorizationRequest aliceCodeGrant)\<lparr> ar_CodeChallenge := ''s256:'' \<rparr>"

definition emptyVerifierWorld :: world where
  "emptyVerifierWorld =
     world0\<lparr> w_codeGrants := [aliceCodeGrant\<lparr> cg_AuthorizationRequest := emptyVerifierRequest \<rparr>] \<rparr>"

definition secretRequest :: TokenRequest where
  "secretRequest = codeRequest\<lparr> r_CodeVerifier := '''', r_ClientSecret := ''s3cret'' \<rparr>"

text \<open>The response to a confidential client that is not allowed refresh tokens.\<close>

definition accessAndIDTokens :: TokenResponse where
  "accessAndIDTokens =
     [''access_token'' \<mapsto> ''access-token:new-grant'',
      ''id_token'' \<mapsto> ''id-token:og:new-grant'']"

subsection \<open>The required fields of a grant type\<close>

text \<open>
  The fields a token request must carry for its grant type, each with the name the
  handler's error message gives it, and the first of them that a request leaves empty.
  This is the reading of "missing a required field" that the validation is compared with.
\<close>

definition requiredFields ::
  "OAuthClientConfig \<Rightarrow> string \<Rightarrow> (string \<times> (TokenRequest \<Rightarrow> string)) list" where
  "requiredFields client grantType =
     (if grantType = AuthorizationCodeGrantType \<or> grantType = SettingsActionGrantType
      then [(''code'', r_Code)]
           @ (if c_IsPublic client then [(''PKCE code verifier'', r_CodeVerifier)] else [])
           @ (if c_IsConfidential client then [(''client secret'', r_ClientSecret)] else [])
      else if grantType = RefreshTokenGrantType then [(''refresh token'', r_RefreshToken)]
      else if grantType = AnonymousRequestGrantType \<or> grantType = BiometricRequestGrantType
      then [(''jwt'', r_JWT)]
      else if grantType = App2AppRequestGrantType
      then [(''jwt'', r_JWT), (''refresh token'', r_RefreshToken), (''client id'', r_ClientID),
            (''redirect uri'', r_RedirectURI)]
      else [])"

definition firstMissingField :: "OAuthClientConfig \<Rightarrow> TokenRequest \<Rightarrow> string option" where
  "firstMissingField client r =
     map_option fst (find (\<lambda>(name, get). get r = '''') (requiredFields client (r_GrantType r)))"

section \<open>Properties\<close>

subsection \<open>Helper lemmas\<close>

lemma ConstantTimeCompare_eq_1: "(ConstantTimeCompare x y = 1) = (x = y)"
  by (simp add: ConstantTimeCompare_def)

lemma ConstantTimeCompare_neq_0: "(ConstantTimeCompare x y \<noteq> 0) = (x = y)"
  by (simp add: ConstantTimeCompare_def)

lemmas grantTypes =
  AuthorizationCodeGrantType_def RefreshTokenGrantType_def TokenExchangeGrantType_def
  AnonymousRequestGrantType_def BiometricRequestGrantType_def App2AppRequestGrantType_def
  IDTokenGrantType_def SettingsActionGrantType_def

lemmas fakes =
  fakeHandler_def fake_Pkg_def fake_CodeGrants_def fake_SettingsActionGrantStore_def
  fake_OfflineGrants_def fake_TokenService_def fake_update_def fake_decodeSID_def

lemmas inputs =
  noProof_def publicClient_def confidentialClient_def aliceInfo_def aliceCodeGrant_def
  aliceSettingsActionGrant_def aliceGrant_def world0_def codeRequest_def offlineGrantOptions_def

lemma foundInList_set: "foundInList k xs = (k \<in> set xs)"
  by (induction xs) auto

lemma validateRequest_unsupported:
  "r_GrantType r \<notin> set whitelistedGrantTypes \<Longrightarrow>
   validateRequest r client =
     Some (OAuthProtocolError ''unsupported_grant_type'' ''grant type is not supported'')"
  by (simp add: validateRequest_def whitelistedGrantTypes_def)

lemma validateRequest_None_recognized:
  "validateRequest r client = None \<Longrightarrow> r_GrantType r \<in> set whitelistedGrantTypes"
  using validateRequest_unsupported[of r client] by fastforce

lemma validateRequest_missing:
  assumes "firstMissingField client r = Some name"
  shows "validateRequest r client =
           Some (OAuthProtocolError ''invalid_request'' (name @ '' is required''))"
proof -
  consider (code) "r_GrantType r = AuthorizationCodeGrantType"
    | (settings) "r_GrantType r = SettingsActionGrantType"
    | (refresh) "r_GrantType r = RefreshTokenGrantType"
    | (anonymous) "r_GrantType r = AnonymousRequestGrantType"
    | (biometric) "r_GrantType r = BiometricRequestGrantType"
    | (app2app) "r_GrantType r = App2AppRequestGrantType"
    | (other) "r_GrantType r \<notin> {AuthorizationCodeGrantType, SettingsActionGrantType,
         RefreshTokenGrantType, AnonymousRequestGrantType, BiometricRequestGrantType,
         App2AppRequestGrantType}"
    by blast
  then show ?thesis
  proof cases
    case code
    with assms show ?thesis
      by (simp add: firstMissingField_def requiredFields_def validateRequest_def grantTypes
          split: if_splits)
  next
    case settings
    with assms show ?thesis
      by (simp add: firstMissingField_def requiredFields_def validateRequest_def grantTypes
          split: if_splits)
  next
    case refresh
    with assms show ?thesis
      by (simp add: firstMissingField_def requiredFields_def validateRequest_def grantTypes
          split: if_splits)
  next
    case anonymous
    with assms show ?thesis
      by (simp add: firstMissingField_def requiredFields_def validateRequest_def grantTypes
          split: if_splits)
  next
    case biometric
    with assms show ?thesis
      by (simp add: firstMissingField_def requiredFields_def validateRequest_def grantTypes
          split: if_splits)
  next
    case app2app
    with assms show ?thesis
      by (simp add: firstMissingField_def requiredFields_def validateRequest_def grantTypes
          split: if_splits)
  next
    case other
    with assms show ?thesis
      by (simp add: firstMissingField_def requiredFields_def)
  qed
qed

text \<open>Where a panic can come from.\<close>

lemma rotateDeviceSecret_no_panic:
  "rotateDeviceSecret h ctx g resp s \<noteq> (Panic m, s')"
  by (simp add: rotateDeviceSecret_def Let_def split: prod.splits sum.splits)

lemma rotateDeviceSecretIfSufficientScope_no_panic:
  "rotateDeviceSecretIfSufficientScope h ctx scopes g resp s \<noteq> (Panic m, s')"
  by (auto simp add: rotateDeviceSecretIfSufficientScope_def rotateDeviceSecret_no_panic
      split: prod.splits res.splits)

lemma app2appUpdateDeviceKeyIfNeeded_no_panic:
  "app2appUpdateDeviceKeyIfNeeded h client g k s \<noteq> (Panic m, s')"
  by (simp add: app2appUpdateDeviceKeyIfNeeded_def Let_def
      split: prod.splits sum.splits option.splits)

lemma requestApp2appDevicePublicKey_no_panic:
  "requestApp2appDevicePublicKey h client jwt s \<noteq> (Panic m, s')"
  by (auto simp add: requestApp2appDevicePublicKey_def app2appGetDeviceKeyJWKVerified_def
      app2appVerifyAndConsumeChallenge_def Let_def
      split: prod.splits sum.splits option.splits res.splits if_splits)

lemma reauthOfflineGrant_no_panic:
  "reauthOfflineGrant h ctx client code k resp s \<noteq> (Panic m, s')"
  by (auto simp add: reauthOfflineGrant_def Let_def
      rotateDeviceSecretIfSufficientScope_no_panic app2appUpdateDeviceKeyIfNeeded_no_panic
      split: prod.splits sum.splits option.splits res.splits if_splits)

lemma issueOfflineGrant_no_panic:
  "issueOfflineGrant h client userID resp opts revoke s \<noteq> (Panic m, s')"
  by (auto simp add: issueOfflineGrant_def split: prod.splits sum.splits option.splits)

lemma selectAccessTokenSession_panic:
  "selectAccessTokenSession h ctx client code authz deviceInfo k resp s = (Panic m, s') \<Longrightarrow>
   \<exists>t. m = ''unknown session type: '' @ t"
  by (auto simp add: selectAccessTokenSession_def Let_def issueOfflineGrant_no_panic
      split: prod.splits sum.splits option.splits res.splits if_splits session_Type.splits)

lemma issueAccessAndIDToken_no_panic:
  "issueAccessAndIDToken h client code authz a s \<noteq> (Panic m, s')"
  by (auto simp add: issueAccessAndIDToken_def Let_def
      split: prod.splits sum.splits option.splits res.splits if_splits)

lemma doIssueTokensForAuthorizationCode_panic:
  "doIssueTokensForAuthorizationCode h ctx client code authz deviceInfo jwt s = (Panic m, s') \<Longrightarrow>
   \<exists>t. m = ''unknown session type: '' @ t"
  using selectAccessTokenSession_panic
  by (fastforce simp add: doIssueTokensForAuthorizationCode_def
      requestApp2appDevicePublicKey_no_panic reauthOfflineGrant_no_panic
      issueAccessAndIDToken_no_panic
      split: prod.splits res.splits)

lemma IssueTokensForAuthorizationCode_panic:
  "IssueTokensForAuthorizationCode h ctx client r s = (Panic m, s') \<Longrightarrow>
   \<exists>t. m = ''unknown session type: '' @ t"
  using doIssueTokensForAuthorizationCode_panic
  by (fastforce simp add: IssueTokensForAuthorizationCode_def Let_def
      split: prod.splits res.splits sum.splits option.splits if_splits)

lemma IssueTokensForSettingsActionCode_no_panic:
  "IssueTokensForSettingsActionCode h client r s \<noteq> (Panic m, s')"
  by (auto simp add: IssueTokensForSettingsActionCode_def Let_def
      split: prod.splits res.splits sum.splits option.splits if_splits)

lemma doHandle_panic:
  "doHandle h hs ctx client r s = (Panic m, s') \<Longrightarrow> \<exists>t. m = ''unknown session type: '' @ t"
  using IssueTokensForAuthorizationCode_panic[of h ctx client r s]
    IssueTokensForSettingsActionCode_no_panic[of h client r s]
    validateRequest_None_recognized[of r client]
  by (auto simp add: doHandle_def Let_def handleAuthorizationCode_def handleSettingsActionCode_def
      returned_def whitelistedGrantTypes_def
      split: prod.splits res.splits sum.splits option.splits if_splits)

text \<open>The loop of \<open>revokeClientOfflineGrants\<close> ends without an error exactly when every
  grant of the list was revoked, in order, each revocation without an error.\<close>

lemma revokeEach_None:
  "(revokeEach h gs s = (None, s1)) =
     (s1 = foldl (\<lambda>st g. snd (RevokeWithoutEvent (SessionManager h) g st)) s gs \<and>
      (\<forall>i < length gs.
         fst (RevokeWithoutEvent (SessionManager h) (gs ! i)
               (foldl (\<lambda>st g. snd (RevokeWithoutEvent (SessionManager h) g st)) s (take i gs)))
           = None))"
proof (induction gs arbitrary: s)
  case Nil
  show ?case by auto
next
  case (Cons g gs)
  obtain e s2 where rv: "RevokeWithoutEvent (SessionManager h) g s = (e, s2)"
    by (cases "RevokeWithoutEvent (SessionManager h) g s")
  show ?case
  proof (cases e)
    case None
    have "(\<forall>i<Suc (length gs). P i) = (P 0 \<and> (\<forall>i<length gs. P (Suc i)))" for P
      by (metis less_Suc_eq_0_disj)
    then show ?thesis using rv None Cons.IH[of s2] by simp
  next
    case (Some err)
    then show ?thesis using rv by auto
  qed
qed

lemma revokeEach_Events:
  "revokeEach (h\<lparr> Events := ev \<rparr>) gs s = revokeEach h gs s"
  by (induction gs arbitrary: s) (auto split: prod.splits option.splits)

subsection \<open>App2app device key binding\<close>

text \<open>
  C3, as the claim states it, fails: with a key already bound and the client's insecure
  binding flag off, a different key is refused with \<open>invalid_request\<close>, not
  \<open>invalid_grant\<close>, because the flag is checked first.
\<close>

theorem app2app_different_key_flag_off:
  "og_App2AppDeviceKeyJWKJSON (aliceGrant ''grant-1'') = ''key-1'' \<and>
   \<not> c_App2appInsecureDeviceKeyBindingEnabled confidentialClient \<and>
   app2appUpdateDeviceKeyIfNeeded fakeHandler confidentialClient (aliceGrant ''grant-1'')
     (Some (JWK ''key-2'')) world0 =
     (Err (OAuthProtocolError ''invalid_request''
        ''x_app2app_insecure_device_key_binding_enabled must be true to allow updating x_app2app_device_key_jwt''),
      world0)"
  by (simp add: app2appUpdateDeviceKeyIfNeeded_def ConstantTimeCompare_def fakes inputs)

text \<open>
  C3, amended. For a client with app2app enabled and a key that marshals to JSON:
  a key whose JSON equals the bound key's JSON leaves the grant and the store unchanged and
  returns no error; a different key, when a key is already bound, fails whatever the
  insecure binding flag is, with \<open>invalid_grant\<close> when the flag is on and with
  \<open>invalid_request\<close> when it is off, the store unchanged.
\<close>

theorem app2app_device_key_binding:
  assumes "c_App2appEnabled client"
    and "json_Marshal (Pkg h) key = Inr newKeyJson"
  shows "(newKeyJson = og_App2AppDeviceKeyJWKJSON offlineGrant \<longrightarrow>
            app2appUpdateDeviceKeyIfNeeded h client offlineGrant (Some key) s =
              (Ok offlineGrant, s)) \<and>
         (newKeyJson \<noteq> og_App2AppDeviceKeyJWKJSON offlineGrant \<and>
          og_App2AppDeviceKeyJWKJSON offlineGrant \<noteq> '''' \<longrightarrow>
            app2appUpdateDeviceKeyIfNeeded h client offlineGrant (Some key) s =
              (Err (if c_App2appInsecureDeviceKeyBindingEnabled client
                    then OAuthProtocolError ''invalid_grant''
                           ''app2app device key cannot be changed''
                    else OAuthProtocolError ''invalid_request''
                           ''x_app2app_insecure_device_key_binding_enabled must be true to allow updating x_app2app_device_key_jwt''),
               s))"
  using assms
  by (simp add: app2appUpdateDeviceKeyIfNeeded_def ConstantTimeCompare_neq_0)

theorem app2app_device_key_binding_witness:
  "c_App2appEnabled publicClient \<and>
   json_Marshal (Pkg fakeHandler) (JWK ''key-1'') = Inr ''key-1'' \<and>
   json_Marshal (Pkg fakeHandler) (JWK ''key-2'') = Inr ''key-2'' \<and>
   app2appUpdateDeviceKeyIfNeeded fakeHandler publicClient (aliceGrant ''grant-1'')
     (Some (JWK ''key-1'')) world0 = (Ok (aliceGrant ''grant-1''), world0) \<and>
   app2appUpdateDeviceKeyIfNeeded fakeHandler publicClient (aliceGrant ''grant-1'')
     (Some (JWK ''key-2'')) world0 =
     (Err (OAuthProtocolError ''invalid_grant'' ''app2app device key cannot be changed''),
      world0)"
  using app2app_device_key_binding[of publicClient fakeHandler "JWK ''key-1''" "''key-1''"
      "aliceGrant ''grant-1''" world0]
    app2app_device_key_binding[of publicClient fakeHandler "JWK ''key-2''" "''key-2''"
      "aliceGrant ''grant-1''" world0]
  by (simp add: fakeHandler_def fake_Pkg_def publicClient_def aliceGrant_def)

subsection \<open>Conditional device secret rotation\<close>

text \<open>
  C4. \<open>rotateDeviceSecretIfDeviceSecretIsPresentAndValid\<close> rotates the device secret
  exactly when the presented device secret is not empty, its hash equals the grant's
  device secret hash, and the authorized scopes contain the device SSO scope; the result
  is then that of the rotation (the flag set). In every other case the grant, the response
  and the state come back unchanged, the flag unset, and no error.
\<close>

theorem rotateDeviceSecret_conditional:
  "rotateDeviceSecretIfDeviceSecretIsPresentAndValid h ctx deviceSecret authorizedScopes
       offlineGrant resp s =
     (if deviceSecret \<noteq> '''' \<and>
         HashToken (Pkg h) deviceSecret = og_DeviceSecretHash offlineGrant \<and>
         DeviceSSOScope \<in> set authorizedScopes
      then
        (case rotateDeviceSecret h ctx offlineGrant resp s of
           (Panic m, s1) \<Rightarrow> (Panic m, s1)
         | (Err err, s1) \<Rightarrow> (Err err, s1)
         | (Ok (newOfflineGrant, resp1), s1) \<Rightarrow> (Ok (newOfflineGrant, True, resp1), s1))
      else (Ok (offlineGrant, False, resp), s))"
  by (simp add: rotateDeviceSecretIfDeviceSecretIsPresentAndValid_def
      rotateDeviceSecretIfSufficientScope_def ContainsAllScopes_def ConstantTimeCompare_eq_1)

theorem rotateDeviceSecret_conditional_witness:
  "rotateDeviceSecretIfDeviceSecretIsPresentAndValid fakeHandler noProof ''wrong-secret''
     [''openid'', ''device_sso''] (aliceGrant ''grant-1'') Map.empty world0 =
     (Ok (aliceGrant ''grant-1'', False, Map.empty), world0) \<and>
   rotateDeviceSecretIfDeviceSecretIsPresentAndValid fakeHandler noProof ''device-secret''
     [''openid''] (aliceGrant ''grant-1'') Map.empty world0 =
     (Ok (aliceGrant ''grant-1'', False, Map.empty), world0) \<and>
   fst (rotateDeviceSecretIfDeviceSecretIsPresentAndValid fakeHandler noProof ''device-secret''
     [''openid'', ''device_sso''] (aliceGrant ''grant-1'') Map.empty world0) =
     Ok ((aliceGrant ''grant-1'')\<lparr> og_DeviceSecretHash := ''h:new-device-secret'' \<rparr>, True,
         [''device_secret'' \<mapsto> ''new-device-secret''])"
  using rotateDeviceSecret_conditional[of fakeHandler noProof "''wrong-secret''"
      "[''openid'', ''device_sso'']" "aliceGrant ''grant-1''" Map.empty world0]
    rotateDeviceSecret_conditional[of fakeHandler noProof "''device-secret''"
      "[''openid'']" "aliceGrant ''grant-1''" Map.empty world0]
    rotateDeviceSecret_conditional[of fakeHandler noProof "''device-secret''"
      "[''openid'', ''device_sso'']" "aliceGrant ''grant-1''" Map.empty world0]
  by (simp add: rotateDeviceSecret_def DeviceSSOScope_def fakes inputs)

subsection \<open>Revocation before a new offline grant\<close>

text \<open>
  C5. When \<open>issueOfflineGrant\<close> is asked to revoke existing grants, the client has
  MaxConcurrentSession = 1 and a new grant is issued, then the store listed the offline
  grants of the client and the user, the session manager's \<open>RevokeWithoutEvent\<close> was
  applied to every one of them in order, each without an error, and only the state after
  the last revocation was handed to the token service to create the new grant. The event
  service takes no part: the function is the same for every event service.
\<close>

theorem issueOfflineGrant_revokes_first:
  assumes "revokeExistingGrants" and "c_MaxConcurrentSession client = 1"
    and "issueOfflineGrant h client userID resp opts revokeExistingGrants s =
           (Ok (offlineGrant, tokenHash, resp1), s')"
  shows "\<exists>existing s1.
           ListClientOfflineGrants (OfflineGrants h) (c_ClientID client) userID s = Inr existing \<and>
           s1 = foldl (\<lambda>st g. snd (RevokeWithoutEvent (SessionManager h) g st)) s existing \<and>
           (\<forall>i < length existing.
              fst (RevokeWithoutEvent (SessionManager h) (existing ! i)
                    (foldl (\<lambda>st g. snd (RevokeWithoutEvent (SessionManager h) g st)) s
                       (take i existing))) = None) \<and>
           IssueOfflineGrant (TokenService h) client opts resp s1 =
             (Inr (offlineGrant, tokenHash, resp1), s') \<and>
           issueOfflineGrant (h\<lparr> Events := ev \<rparr>) client userID resp opts revokeExistingGrants s =
             issueOfflineGrant h client userID resp opts revokeExistingGrants s"
proof -
  have indep:
    "issueOfflineGrant (h\<lparr> Events := ev \<rparr>) client userID resp opts revokeExistingGrants s =
       issueOfflineGrant h client userID resp opts revokeExistingGrants s"
    by (simp add: issueOfflineGrant_def revokeClientOfflineGrants_def revokeEach_Events
        cong: sum.case_cong option.case_cong prod.case_cong)
  from assms obtain existing s1 where
    l: "ListClientOfflineGrants (OfflineGrants h) (c_ClientID client) userID s = Inr existing"
    and r: "revokeEach h existing s = (None, s1)"
    and i: "IssueOfflineGrant (TokenService h) client opts resp s1 =
             (Inr (offlineGrant, tokenHash, resp1), s')"
    by (auto simp add: issueOfflineGrant_def revokeClientOfflineGrants_def
        split: prod.splits option.splits sum.splits)
  from r[unfolded revokeEach_None] l i indep show ?thesis by blast
qed

theorem issueOfflineGrant_revokes_first_witness:
  "c_MaxConcurrentSession publicClient = 1 \<and>
   issueOfflineGrant fakeHandler publicClient ''alice'' (Some Map.empty) offlineGrantOptions
     True world0 =
     (Ok (\<lparr> og_ID = ''new-grant'', og_ClientID = ''public-client'', og_UserID = ''alice'',
            og_AuthenticatedAt = 90, og_DeviceSecretHash = '''',
            og_App2AppDeviceKeyJWKJSON = '''' \<rparr>,
          ''h:refresh-token'', Some [''refresh_token'' \<mapsto> ''refresh-token'']),
      world0\<lparr> w_offlineGrants :=
                 [\<lparr> og_ID = ''new-grant'', og_ClientID = ''public-client'',
                    og_UserID = ''alice'', og_AuthenticatedAt = 90, og_DeviceSecretHash = '''',
                    og_App2AppDeviceKeyJWKJSON = '''' \<rparr>],
               w_revokedWithoutEvent := [''grant-1'', ''grant-2''] \<rparr>) \<and>
   (\<exists>existing.
      ListClientOfflineGrants (OfflineGrants fakeHandler) (c_ClientID publicClient) ''alice''
        world0 = Inr existing \<and>
      map og_ID existing = [''grant-1'', ''grant-2''] \<and>
      w_revokedWithoutEvent
        (foldl (\<lambda>st g. snd (RevokeWithoutEvent (SessionManager fakeHandler) g st)) world0
           existing) = [''grant-1'', ''grant-2''])"
proof -
  have one: "c_MaxConcurrentSession publicClient = 1"
    by (simp add: publicClient_def)
  have run:
    "issueOfflineGrant fakeHandler publicClient ''alice'' (Some Map.empty) offlineGrantOptions
       True world0 =
       (Ok (\<lparr> og_ID = ''new-grant'', og_ClientID = ''public-client'', og_UserID = ''alice'',
              og_AuthenticatedAt = 90, og_DeviceSecretHash = '''',
              og_App2AppDeviceKeyJWKJSON = '''' \<rparr>,
            ''h:refresh-token'', Some [''refresh_token'' \<mapsto> ''refresh-token'']),
        world0\<lparr> w_offlineGrants :=
                   [\<lparr> og_ID = ''new-grant'', og_ClientID = ''public-client'',
                      og_UserID = ''alice'', og_AuthenticatedAt = 90, og_DeviceSecretHash = '''',
                      og_App2AppDeviceKeyJWKJSON = '''' \<rparr>],
                 w_revokedWithoutEvent := [''grant-1'', ''grant-2''] \<rparr>)"
    by (simp add: issueOfflineGrant_def revokeClientOfflineGrants_def Let_def fakes inputs)
  from issueOfflineGrant_revokes_first[OF TrueI one run]
  obtain existing where
    l: "ListClientOfflineGrants (OfflineGrants fakeHandler) (c_ClientID publicClient) ''alice''
          world0 = Inr existing"
    by blast
  then have e: "existing = [aliceGrant ''grant-1'', aliceGrant ''grant-2'']"
    by (simp add: fakes inputs)
  have "map og_ID existing = [''grant-1'', ''grant-2'']"
    by (simp add: e aliceGrant_def)
  moreover have "w_revokedWithoutEvent
        (foldl (\<lambda>st g. snd (RevokeWithoutEvent (SessionManager fakeHandler) g st)) world0
           existing) = [''grant-1'', ''grant-2'']"
    by (simp add: e fakes inputs)
  ultimately have "\<exists>existing.
      ListClientOfflineGrants (OfflineGrants fakeHandler) (c_ClientID publicClient) ''alice''
        world0 = Inr existing \<and>
      map og_ID existing = [''grant-1'', ''grant-2''] \<and>
      w_revokedWithoutEvent
        (foldl (\<lambda>st g. snd (RevokeWithoutEvent (SessionManager fakeHandler) g st)) world0
           existing) = [''grant-1'', ''grant-2'']"
    using l by (intro exI[of _ existing] conjI)
  then show ?thesis by (rule conjI[OF one conjI[OF run]])
qed

subsection \<open>Device secret verification of the pre-authenticated URL exchange\<close>

text \<open>
  C6. Every call of \<open>verifyIDTokenDeviceSecretHash\<close> evaluates all the checks, in the order
  of the source and whatever the earlier checks found: the ID token has the claim
  \<open>ds_hash\<close>, the claim is a string (the two together are the claim's first check), the
  string equals the hash of the device secret, the grant's device secret hash equals that
  hash, and the DPoP proof matches the grant. The call returns an error if and only if at
  least one of the evaluated checks fails, that is, no error if and only if the ID token
  has a string claim \<open>ds_hash\<close> equal to the hash of the device secret, the grant's hash
  equals that hash and the DPoP proof matches. The error is that of the last check that
  fails. In particular a \<open>ds_hash\<close> that is absent, not a string or different from the hash
  is an \<open>invalid_grant\<close> error even when the grant's own hash and the DPoP proof match.
\<close>

theorem verifyIDTokenDeviceSecretHash_all_checks:
  "(case verifyIDTokenDeviceSecretHash h ctx offlineGrant idToken deviceSecret of
      (err, checks) \<Rightarrow>
        checks =
          [(DsHashPresent, idToken ClaimDeviceSecretHash \<noteq> None),
           (DsHashIsString,
              (case idToken ClaimDeviceSecretHash of Some (StringClaim v) \<Rightarrow> True | _ \<Rightarrow> False)),
           (DsHashMatchesDeviceSecret,
              (case idToken ClaimDeviceSecretHash of Some (StringClaim v) \<Rightarrow> v | _ \<Rightarrow> '''') =
                HashToken (Pkg h) deviceSecret),
           (GrantMatchesDeviceSecret,
              og_DeviceSecretHash offlineGrant = HashToken (Pkg h) deviceSecret),
           (DPoPMatchesGrant, MatchDeviceSecretDPoPJKT (Pkg h) offlineGrant (GetDPoPProof ctx))] \<and>
        ((err \<noteq> None) = (False \<in> snd ` set checks)) \<and>
        ((err = None) =
           (idToken ClaimDeviceSecretHash = Some (StringClaim (HashToken (Pkg h) deviceSecret)) \<and>
            og_DeviceSecretHash offlineGrant = HashToken (Pkg h) deviceSecret \<and>
            MatchDeviceSecretDPoPJKT (Pkg h) offlineGrant (GetDPoPProof ctx))) \<and>
        (\<not> MatchDeviceSecretDPoPJKT (Pkg h) offlineGrant (GetDPoPProof ctx) \<longrightarrow>
           err = Some ErrInvalidDPoPKeyBinding) \<and>
        (MatchDeviceSecretDPoPJKT (Pkg h) offlineGrant (GetDPoPProof ctx) \<and>
         og_DeviceSecretHash offlineGrant \<noteq> HashToken (Pkg h) deviceSecret \<longrightarrow>
           err = Some (OAuthProtocolError ''invalid_grant''
                         ''the device_secret (actor_token) does not bind to the session'')) \<and>
        (MatchDeviceSecretDPoPJKT (Pkg h) offlineGrant (GetDPoPProof ctx) \<and>
         og_DeviceSecretHash offlineGrant = HashToken (Pkg h) deviceSecret \<and>
         idToken ClaimDeviceSecretHash \<noteq> Some (StringClaim (HashToken (Pkg h) deviceSecret)) \<longrightarrow>
           (\<exists>description. err = Some (OAuthProtocolError ''invalid_grant'' description))))"
proof -
  obtain err checks where
    run: "verifyIDTokenDeviceSecretHash h ctx offlineGrant idToken deviceSecret = (err, checks)"
    by (cases "verifyIDTokenDeviceSecretHash h ctx offlineGrant idToken deviceSecret")
  have checks: "checks =
          [(DsHashPresent, idToken ClaimDeviceSecretHash \<noteq> None),
           (DsHashIsString,
              (case idToken ClaimDeviceSecretHash of Some (StringClaim v) \<Rightarrow> True | _ \<Rightarrow> False)),
           (DsHashMatchesDeviceSecret,
              (case idToken ClaimDeviceSecretHash of Some (StringClaim v) \<Rightarrow> v | _ \<Rightarrow> '''') =
                HashToken (Pkg h) deviceSecret),
           (GrantMatchesDeviceSecret,
              og_DeviceSecretHash offlineGrant = HashToken (Pkg h) deviceSecret),
           (DPoPMatchesGrant, MatchDeviceSecretDPoPJKT (Pkg h) offlineGrant (GetDPoPProof ctx))]"
    using run
    by (simp add: verifyIDTokenDeviceSecretHash_def evaluated_def Let_def
        ConstantTimeCompare_eq_1)
  have err: "err =
      (if \<not> MatchDeviceSecretDPoPJKT (Pkg h) offlineGrant (GetDPoPProof ctx)
       then Some ErrInvalidDPoPKeyBinding
       else if og_DeviceSecretHash offlineGrant \<noteq> HashToken (Pkg h) deviceSecret
       then Some (OAuthProtocolError ''invalid_grant''
                    ''the device_secret (actor_token) does not bind to the session'')
       else if (case idToken ClaimDeviceSecretHash of Some (StringClaim v) \<Rightarrow> v | _ \<Rightarrow> '''') \<noteq>
                 HashToken (Pkg h) deviceSecret
       then Some (OAuthProtocolError ''invalid_grant''
                    ''the hash of device_secret (actor_token) does not match ds_hash in id token (subject_token)'')
       else if \<not> (case idToken ClaimDeviceSecretHash of Some (StringClaim v) \<Rightarrow> True | _ \<Rightarrow> False)
       then Some (OAuthProtocolError ''invalid_grant'' ''expected ds_hash to be a string'')
       else if idToken ClaimDeviceSecretHash = None
       then Some (OAuthProtocolError ''invalid_grant''
                    ''expected ds_hash to be present in id token (subject_token)'')
       else None)"
    using run
    by (simp add: verifyIDTokenDeviceSecretHash_def evaluated_def Let_def
        ConstantTimeCompare_eq_1)
  have some: "(err \<noteq> None) = (False \<in> snd ` set checks)"
    unfolding err checks by (auto split: option.splits claim_value.splits)
  have none: "(err = None) =
           (idToken ClaimDeviceSecretHash = Some (StringClaim (HashToken (Pkg h) deviceSecret)) \<and>
            og_DeviceSecretHash offlineGrant = HashToken (Pkg h) deviceSecret \<and>
            MatchDeviceSecretDPoPJKT (Pkg h) offlineGrant (GetDPoPProof ctx))"
    unfolding err by (auto split: option.splits claim_value.splits)
  have dpop: "\<not> MatchDeviceSecretDPoPJKT (Pkg h) offlineGrant (GetDPoPProof ctx) \<longrightarrow>
           err = Some ErrInvalidDPoPKeyBinding"
    unfolding err by simp
  have bind: "MatchDeviceSecretDPoPJKT (Pkg h) offlineGrant (GetDPoPProof ctx) \<and>
         og_DeviceSecretHash offlineGrant \<noteq> HashToken (Pkg h) deviceSecret \<longrightarrow>
           err = Some (OAuthProtocolError ''invalid_grant''
                         ''the device_secret (actor_token) does not bind to the session'')"
    unfolding err by simp
  have claim: "MatchDeviceSecretDPoPJKT (Pkg h) offlineGrant (GetDPoPProof ctx) \<and>
         og_DeviceSecretHash offlineGrant = HashToken (Pkg h) deviceSecret \<and>
         idToken ClaimDeviceSecretHash \<noteq> Some (StringClaim (HashToken (Pkg h) deviceSecret)) \<longrightarrow>
           (\<exists>description. err = Some (OAuthProtocolError ''invalid_grant'' description))"
    unfolding err by (auto split: option.splits claim_value.splits)
  show ?thesis
    unfolding run prod.case by (intro conjI) (rule checks some none dpop bind claim)+
qed

theorem verifyIDTokenDeviceSecretHash_all_checks_witness:
  "og_DeviceSecretHash (aliceGrant ''grant-1'') = HashToken (Pkg fakeHandler) ''device-secret'' \<and>
   MatchDeviceSecretDPoPJKT (Pkg fakeHandler) (aliceGrant ''grant-1'') (GetDPoPProof noProof) \<and>
   verifyIDTokenDeviceSecretHash fakeHandler noProof (aliceGrant ''grant-1'')
     [''ds_hash'' \<mapsto> StringClaim ''h:device-secret''] ''device-secret'' =
     (None,
      [(DsHashPresent, True), (DsHashIsString, True), (DsHashMatchesDeviceSecret, True),
       (GrantMatchesDeviceSecret, True), (DPoPMatchesGrant, True)]) \<and>
   verifyIDTokenDeviceSecretHash fakeHandler noProof (aliceGrant ''grant-1'')
     [''ds_hash'' \<mapsto> StringClaim ''h:another-secret''] ''device-secret'' =
     (Some (OAuthProtocolError ''invalid_grant''
        ''the hash of device_secret (actor_token) does not match ds_hash in id token (subject_token)''),
      [(DsHashPresent, True), (DsHashIsString, True), (DsHashMatchesDeviceSecret, False),
       (GrantMatchesDeviceSecret, True), (DPoPMatchesGrant, True)])"
proof -
  have "verifyIDTokenDeviceSecretHash fakeHandler noProof (aliceGrant ''grant-1'')
     [''ds_hash'' \<mapsto> StringClaim ''h:another-secret''] ''device-secret'' =
     (Some (OAuthProtocolError ''invalid_grant''
        ''the hash of device_secret (actor_token) does not match ds_hash in id token (subject_token)''),
      [(DsHashPresent, True), (DsHashIsString, True), (DsHashMatchesDeviceSecret, False),
       (GrantMatchesDeviceSecret, True), (DPoPMatchesGrant, True)])"
    by (simp add: verifyIDTokenDeviceSecretHash_def evaluated_def ConstantTimeCompare_def
        ClaimDeviceSecretHash_def fakes inputs)
  then show ?thesis
    using verifyIDTokenDeviceSecretHash_all_checks[where h = fakeHandler and ctx = noProof
        and offlineGrant = "aliceGrant ''grant-1''"
        and idToken = "[''ds_hash'' \<mapsto> StringClaim ''h:device-secret'']"
        and deviceSecret = "''device-secret''"]
    by (auto simp add: ClaimDeviceSecretHash_def fakes inputs split: prod.splits)
qed

subsection \<open>The dispatcher's default branch\<close>

text \<open>
  C9. A request whose grant type is none of the eight recognized values is rejected by
  the request validation with \<open>unsupported_grant_type\<close>, the state untouched; a request
  that passes the validation has one of the eight grant types; and \<open>doHandle\<close> never
  ends in the panic of the dispatcher's default branch.
\<close>

theorem dispatch_default_unreachable:
  "(r_GrantType r \<notin> set whitelistedGrantTypes \<longrightarrow>
      doHandle h hs ctx client r s =
        (Err (OAuthProtocolError ''unsupported_grant_type'' ''grant type is not supported''), s)) \<and>
   (validateRequest r client = None \<longrightarrow> r_GrantType r \<in> set whitelistedGrantTypes) \<and>
   doHandle h hs ctx client r s \<noteq> (Panic ''oauth: unexpected grant type'', s')"
proof -
  have "doHandle h hs ctx client r s \<noteq> (Panic ''oauth: unexpected grant type'', s')"
    using doHandle_panic[of h hs ctx client r s "''oauth: unexpected grant type''" s'] by auto
  then show ?thesis
    using validateRequest_unsupported[of r client] validateRequest_None_recognized[of r client]
    by (simp add: doHandle_def)
qed

theorem dispatch_default_unreachable_witness:
  "r_GrantType (codeRequest\<lparr> r_GrantType := ''password'' \<rparr>) \<notin> set whitelistedGrantTypes \<and>
   doHandle fakeHandler fakeHandlers noProof publicClient
     (codeRequest\<lparr> r_GrantType := ''password'' \<rparr>) world0 =
     (Err (OAuthProtocolError ''unsupported_grant_type'' ''grant type is not supported''), world0) \<and>
   validateRequest codeRequest publicClient = None \<and>
   r_GrantType codeRequest \<in> set whitelistedGrantTypes"
  using dispatch_default_unreachable[of "codeRequest\<lparr> r_GrantType := ''password'' \<rparr>"
      fakeHandler fakeHandlers noProof publicClient world0 world0]
    dispatch_default_unreachable[of codeRequest fakeHandler fakeHandlers noProof
      publicClient world0 world0]
  by (simp add: whitelistedGrantTypes_def grantTypes codeRequest_def publicClient_def
      validateRequest_def)

subsection \<open>Validation before the grant type check\<close>

text \<open>
  C10. The required fields are validated before the grant type is checked against the
  grant types allowed for the client (the client's own list and the fixed list): whenever
  the validation finds an error, that error is the answer and the state is untouched. The
  order shows at a grant type that is not allowed: the answer is the validation's
  \<open>unsupported_grant_type\<close>, not the \<open>unauthorized_client\<close> of the later check. A request
  that leaves a required field of its grant type empty is answered with \<open>invalid_request\<close>
  "<field> is required" (the first such field), whether or not the client's own list has
  its grant type; its grant type is always one of the fixed list, so no request both has a
  grant type that is not allowed and misses a required field. A request that passes the
  validation passes the later check as well.
\<close>

theorem validation_before_whitelist:
  "(validateRequest r client = Some err \<longrightarrow> doHandle h hs ctx client r s = (Err err, s)) \<and>
   (\<not> foundInList (r_GrantType r) (c_GrantTypes client @ whitelistedGrantTypes) \<longrightarrow>
      doHandle h hs ctx client r s =
        (Err (OAuthProtocolError ''unsupported_grant_type'' ''grant type is not supported''), s)) \<and>
   (firstMissingField client r = Some name \<longrightarrow>
      doHandle h hs ctx client r s =
        (Err (OAuthProtocolError ''invalid_request'' (name @ '' is required'')), s) \<and>
      foundInList (r_GrantType r) (c_GrantTypes client @ whitelistedGrantTypes)) \<and>
   (validateRequest r client = None \<longrightarrow>
      foundInList (r_GrantType r) (c_GrantTypes client @ whitelistedGrantTypes))"
proof -
  have first: "doHandle h hs ctx client r s = (Err e, s)" if "validateRequest r client = Some e" for e
    using that by (simp add: doHandle_def)
  have unsupported: "validateRequest r client =
      Some (OAuthProtocolError ''unsupported_grant_type'' ''grant type is not supported'')"
    if "\<not> foundInList (r_GrantType r) (c_GrantTypes client @ whitelistedGrantTypes)"
    using that validateRequest_unsupported[of r client] by (simp add: foundInList_set)
  have missing: "validateRequest r client =
      Some (OAuthProtocolError ''invalid_request'' (n @ '' is required''))"
    if "firstMissingField client r = Some n" for n
    using that by (rule validateRequest_missing)
  have allowed: "foundInList (r_GrantType r) (c_GrantTypes client @ whitelistedGrantTypes)"
    if "firstMissingField client r = Some n" for n
  proof (rule ccontr)
    assume "\<not> foundInList (r_GrantType r) (c_GrantTypes client @ whitelistedGrantTypes)"
    from unsupported[OF this] missing[OF that] show False by simp
  qed
  have passed: "foundInList (r_GrantType r) (c_GrantTypes client @ whitelistedGrantTypes)"
    if "validateRequest r client = None"
    using validateRequest_None_recognized[OF that] by (simp add: foundInList_set)
  show ?thesis
    using first unsupported missing allowed passed by metis
qed

theorem validation_before_whitelist_witness:
  "\<not> foundInList (r_GrantType (codeRequest\<lparr> r_GrantType := ''client_credentials'' \<rparr>))
       (c_GrantTypes publicClient @ whitelistedGrantTypes) \<and>
   doHandle fakeHandler fakeHandlers noProof publicClient
     (codeRequest\<lparr> r_GrantType := ''client_credentials'' \<rparr>) world0 =
     (Err (OAuthProtocolError ''unsupported_grant_type'' ''grant type is not supported''), world0) \<and>
   r_GrantType (codeRequest\<lparr> r_GrantType := ''refresh_token'' \<rparr>)
     \<notin> set (c_GrantTypes confidentialClient) \<and>
   firstMissingField confidentialClient (codeRequest\<lparr> r_GrantType := ''refresh_token'' \<rparr>) =
     Some ''refresh token'' \<and>
   doHandle fakeHandler fakeHandlers noProof confidentialClient
     (codeRequest\<lparr> r_GrantType := ''refresh_token'' \<rparr>) world0 =
     (Err (OAuthProtocolError ''invalid_request'' ''refresh token is required''), world0) \<and>
   validateRequest codeRequest publicClient = None \<and>
   foundInList (r_GrantType codeRequest) (c_GrantTypes publicClient @ whitelistedGrantTypes)"
proof -
  have a: "\<not> foundInList (r_GrantType (codeRequest\<lparr> r_GrantType := ''client_credentials'' \<rparr>))
       (c_GrantTypes publicClient @ whitelistedGrantTypes)"
    by (simp add: publicClient_def whitelistedGrantTypes_def grantTypes)
  have b: "firstMissingField confidentialClient (codeRequest\<lparr> r_GrantType := ''refresh_token'' \<rparr>) =
     Some ''refresh token''"
    by (simp add: firstMissingField_def requiredFields_def grantTypes codeRequest_def)
  have c: "r_GrantType (codeRequest\<lparr> r_GrantType := ''refresh_token'' \<rparr>)
     \<notin> set (c_GrantTypes confidentialClient)"
    by (simp add: confidentialClient_def)
  have d: "validateRequest codeRequest publicClient = None"
    by (simp add: validateRequest_def grantTypes codeRequest_def publicClient_def)
  from a b c d
    validation_before_whitelist[of "codeRequest\<lparr> r_GrantType := ''client_credentials'' \<rparr>"
      publicClient _ fakeHandler fakeHandlers noProof world0]
    validation_before_whitelist[of "codeRequest\<lparr> r_GrantType := ''refresh_token'' \<rparr>"
      confidentialClient _ fakeHandler fakeHandlers noProof world0 "''refresh token''"]
    validation_before_whitelist[of codeRequest publicClient _ fakeHandler fakeHandlers
      noProof world0]
  show ?thesis by simp
qed

subsection \<open>Helper lemmas on the authorization code exchange\<close>

lemmas codeExchange =
  IssueTokensForAuthorizationCode_def doIssueTokensForAuthorizationCode_def
  requestApp2appDevicePublicKey_def reauthOfflineGrant_def selectAccessTokenSession_def
  issueAccessAndIDToken_def issueOfflineGrant_def revokeClientOfflineGrants_def
  verifyPKCE_def needVerifyPKCE_def NewS256Verifier_def verifyClientSecret_def
  issueRefreshTokenFlag_def scopeFlags_def shouldIssueDeviceSecret_def resp_IDToken_def
  ConstantTimeCompare_def OfflineAccess_def DeviceSSOScope_def RefreshTokenGrantType_def
  errInvalidAuthzCode_def Let_def

lemmas outcomes =
  newGrant_def issuedTokens_def world1_def expiredBoundWorld_def accessAndIDTokens_def

lemma issueOfflineGrant_Ok:
  "issueOfflineGrant h client userID resp opts revoke s = (Ok (g, th, resp1), s') \<Longrightarrow>
   \<exists>s1. IssueOfflineGrant (TokenService h) client opts resp s1 = (Inr (g, th, resp1), s')"
  by (auto simp add: issueOfflineGrant_def split: prod.splits option.splits sum.splits)

text \<open>When a refresh token is to be issued, the selected session's response carries the
  refresh token the token service wrote.\<close>

lemma selectAccessTokenSession_refresh:
  assumes offline: "\<And>client opts resp s g th resp1 s'.
      IssueOfflineGrant (TokenService h) client opts (Some resp) s = (Inr (g, th, resp1), s') \<Longrightarrow>
      \<exists>m t. resp1 = Some m \<and> m ''refresh_token'' = Some t \<and> t \<noteq> ''''"
    and refresh: "\<And>grantID client opts resp s g th resp1 s'.
      IssueRefreshTokenForOfflineGrant (TokenService h) grantID client opts resp s =
        (Inr (g, th, resp1), s') \<Longrightarrow>
      \<exists>t. resp1 ''refresh_token'' = Some t \<and> t \<noteq> ''''"
    and flag: "issueRefreshTokenFlag client (ar_Scope (cg_AuthorizationRequest code))"
    and sel: "selectAccessTokenSession h ctx client code authz deviceInfo k resp s = (Ok a, s')"
  shows "\<exists>t. ats_resp a ''refresh_token'' = Some t \<and> t \<noteq> ''''"
proof -
  let ?info = "cg_AuthenticationInfo code"
  show ?thesis
  proof (cases "ai_AuthenticatedBySessionType ?info = TypeOfflineGrant")
    case True
    with sel flag obtain g th resp1 s1 where
      i: "IssueRefreshTokenForOfflineGrant (TokenService h) (ai_AuthenticatedBySessionID ?info)
            client \<lparr> ro_Scopes = ar_Scope (cg_AuthorizationRequest code),
                     ro_AuthorizationID = az_ID authz,
                     ro_DPoPJKT = fst (GetDPoPProofJKT ctx) \<rparr> resp s = (Inr (g, th, resp1), s1)"
      and a: "ats_resp a = resp1"
      by (auto simp add: selectAccessTokenSession_def Let_def
          split: prod.splits sum.splits option.splits if_splits)
    from refresh[OF i] a show ?thesis by simp
  next
    case False
    with sel flag obtain g th resp1 s1 opts where
      i: "issueOfflineGrant h client (ai_UserID ?info) (Some resp) opts True s =
            (Ok (g, th, resp1), s1)"
      and a: "ats_resp a = (case resp1 of Some written \<Rightarrow> written | None \<Rightarrow> resp)"
      by (auto simp add: selectAccessTokenSession_def Let_def
          split: prod.splits sum.splits option.splits if_splits res.splits session_Type.splits)
    from issueOfflineGrant_Ok[OF i] obtain s0 where
      "IssueOfflineGrant (TokenService h) client opts (Some resp) s0 = (Inr (g, th, resp1), s1)"
      by blast
    from offline[OF this] a show ?thesis by auto
  qed
qed

text \<open>With \<open>openid\<close> asked for, the last part writes the access token and the ID token
  and keeps the refresh token.\<close>

lemma issueAccessAndIDToken_tokens:
  assumes access: "\<And>client scopes authzID userID sessionID kind refreshTokenHash resp s resp1 s'.
      IssueAccessGrant (TokenService h) client scopes authzID userID sessionID kind
        refreshTokenHash resp s = (Inr resp1, s') \<Longrightarrow>
      (\<exists>t. resp1 ''access_token'' = Some t \<and> t \<noteq> '''') \<and>
      resp1 ''refresh_token'' = resp ''refresh_token''"
    and idtoken: "\<And>opts s t s'.
      IssueIDToken (IDTokenIssuer h) opts s = (Inr t, s') \<Longrightarrow> t \<noteq> ''''"
    and openid: "snd (scopeFlags (ar_Scope (cg_AuthorizationRequest code)))"
    and iss: "issueAccessAndIDToken h client code authz a s = (Ok resp, s')"
  shows "(\<exists>t. resp ''access_token'' = Some t \<and> t \<noteq> '''') \<and>
         resp ''refresh_token'' = ats_resp a ''refresh_token'' \<and>
         (\<exists>t. resp ''id_token'' = Some t \<and> t \<noteq> '''')"
proof -
  from iss openid obtain resp1 s1 idToken where
    ag: "IssueAccessGrant (TokenService h) client (ar_Scope (cg_AuthorizationRequest code))
          (az_ID authz) (az_UserID authz) (ats_accessTokenSessionID a)
          (ats_accessTokenSessionKind a) (ats_refreshTokenHash a) (ats_resp a) s = (Inr resp1, s1)"
    and it: "IssueIDToken (IDTokenIssuer h)
               \<lparr> io_ClientID = c_ClientID client, io_SID = ats_sid a,
                 io_Nonce = ar_Nonce (cg_AuthorizationRequest code),
                 io_AuthenticationInfo = cg_AuthenticationInfo code,
                 io_ClientLike = (client, ar_Scope (cg_AuthorizationRequest code)),
                 io_DeviceSecretHash = ats_deviceSecretHash a \<rparr> s1 = (Inr idToken, s')"
    and r: "resp = resp_IDToken resp1 idToken"
    by (auto simp add: issueAccessAndIDToken_def Let_def
        split: prod.splits sum.splits if_splits)
  from access[OF ag] idtoken[OF it] r show ?thesis
    by (auto simp add: resp_IDToken_def)
qed

text \<open>The exchange succeeds exactly when every check passes and the tokens are issued;
  the state is then the one after \<open>DeleteCodeGrant\<close>, whose error is dropped.\<close>

lemma IssueTokensForAuthorizationCode_Ok:
  "(IssueTokensForAuthorizationCode h ctx client r s = (Ok resp, s')) =
      (\<exists>deviceInfo codeGrant uiInfo authz s2.
         r_DeviceInfo r = Inr deviceInfo \<and>
         GetCodeGrant (CodeGrants h) (HashToken (Pkg h) (r_Code r)) s = Inr codeGrant \<and>
         MatchDPoPJKT (Pkg h) codeGrant (GetDPoPProof ctx) \<and>
         ResolveForAuthorizationEndpoint (UIInfoResolver h) client
           (cg_AuthorizationRequest codeGrant) s = Inr uiInfo \<and>
         \<not> NowUTC h (WithUIParam (Pkg h) uiInfo s) > cg_ExpireAt codeGrant \<and>
         cg_RedirectURI codeGrant = r_RedirectURI r \<and>
         verifyPKCE h client (cg_AuthorizationRequest codeGrant) r = None \<and>
         verifyClientSecret h client r = None \<and>
         GetByID (Authorizations h) (cg_AuthorizationID codeGrant)
           (WithUIParam (Pkg h) uiInfo s) = Inr authz \<and>
         doIssueTokensForAuthorizationCode h ctx client codeGrant authz deviceInfo
           (r_App2AppDeviceKeyJWT r) (WithUIParam (Pkg h) uiInfo s) = (Ok resp, s2) \<and>
         s' = snd (DeleteCodeGrant (CodeGrants h) codeGrant s2))"
  by (auto simp add: IssueTokensForAuthorizationCode_def Let_def
      split: sum.splits option.splits if_splits prod.splits res.splits)

lemma doIssueTokensForAuthorizationCode_Ok:
  "doIssueTokensForAuthorizationCode h ctx client code authz deviceInfo jwt s = (Ok resp, s') \<Longrightarrow>
   \<exists>k resp0 a sa sb.
     selectAccessTokenSession h ctx client code authz deviceInfo k resp0 sa = (Ok a, sb) \<and>
     issueAccessAndIDToken h client code authz a sb = (Ok resp, s')"
  by (clarsimp simp add: doIssueTokensForAuthorizationCode_def split: prod.splits res.splits)
     blast

lemma IssueTokensForAuthorizationCode_unknown:
  "r_DeviceInfo r = Inr deviceInfo \<Longrightarrow>
   GetCodeGrant (CodeGrants h) (HashToken (Pkg h) (r_Code r)) s = Inl ErrGrantNotFound \<Longrightarrow>
   IssueTokensForAuthorizationCode h ctx client r s =
     (Err (OAuthProtocolError ''invalid_grant'' ''invalid authorization code''), s)"
  by (simp add: IssueTokensForAuthorizationCode_def errInvalidAuthzCode_def)

lemma IssueTokensForAuthorizationCode_expired:
  "r_DeviceInfo r = Inr deviceInfo \<Longrightarrow>
   GetCodeGrant (CodeGrants h) (HashToken (Pkg h) (r_Code r)) s = Inr codeGrant \<Longrightarrow>
   MatchDPoPJKT (Pkg h) codeGrant (GetDPoPProof ctx) \<Longrightarrow>
   ResolveForAuthorizationEndpoint (UIInfoResolver h) client
     (cg_AuthorizationRequest codeGrant) s = Inr uiInfo \<Longrightarrow>
   NowUTC h (WithUIParam (Pkg h) uiInfo s) > cg_ExpireAt codeGrant \<Longrightarrow>
   IssueTokensForAuthorizationCode h ctx client r s =
     (Err (OAuthProtocolError ''invalid_grant'' ''invalid authorization code''),
      WithUIParam (Pkg h) uiInfo s)"
  by (simp add: IssueTokensForAuthorizationCode_def errInvalidAuthzCode_def Let_def)

text \<open>Runs of the exchange on the reference implementation.\<close>

lemma run_code1:
  "IssueTokensForAuthorizationCode fakeHandler noProof publicClient codeRequest world0 =
     (Ok issuedTokens, world1)"
  by (simp add: codeExchange fakes inputs outcomes)

lemma run_code1_store_down:
  "IssueTokensForAuthorizationCode fakeHandler noProof publicClient codeRequest
     (world0\<lparr> w_storeDown := True \<rparr>) =
     (Ok issuedTokens,
      world1\<lparr> w_storeDown := True, w_codeGrants := [aliceCodeGrant] \<rparr>)"
  by (simp add: codeExchange fakes inputs outcomes)

lemma run_code1_store_down_again:
  "fst (IssueTokensForAuthorizationCode fakeHandler noProof publicClient codeRequest
          (world1\<lparr> w_storeDown := True, w_codeGrants := [aliceCodeGrant] \<rparr>)) =
     Ok issuedTokens"
  by (simp add: codeExchange fakes inputs outcomes)

lemma run_expired_bound:
  "IssueTokensForAuthorizationCode fakeHandler noProof publicClient codeRequest
     expiredBoundWorld = (Err ErrInvalidDPoPKeyBinding, expiredBoundWorld)"
  by (simp add: codeExchange fakes inputs outcomes)

lemma run_unknown_bad_device:
  "IssueTokensForAuthorizationCode fakeHandler noProof publicClient
     (codeRequest\<lparr> r_Code := ''no-such-code'', r_DeviceInfo := Inl ''invalid device info'' \<rparr>)
     world0 =
     (Err (OAuthProtocolError ''invalid_request'' ''invalid device info''), world0)"
  by (simp add: codeExchange fakes inputs)

lemma run_confidential:
  "IssueTokensForAuthorizationCode fakeHandler noProof confidentialClient
     (codeRequest\<lparr> r_ClientSecret := ''s3cret'' \<rparr>) world0 =
     (Ok accessAndIDTokens,
      world0\<lparr> w_codeGrants := [],
               w_offlineGrants := newGrant ''confidential-client'' # w_offlineGrants world0,
               w_uiParam := ''ui'' \<rparr>)"
  by (simp add: codeExchange fakes inputs outcomes)

lemma run_empty_verifier:
  "IssueTokensForAuthorizationCode fakeHandler noProof confidentialClient secretRequest
     emptyVerifierWorld =
     (Err (OAuthProtocolError ''invalid_grant'' ''invalid authorization code''),
      emptyVerifierWorld\<lparr> w_uiParam := ''ui'' \<rparr>)"
  by (simp add: codeExchange fakes inputs emptyVerifierRequest_def emptyVerifierWorld_def
      secretRequest_def)

subsection \<open>PKCE in the authorization code exchange\<close>

text \<open>
  C2, as the claim states it, fails where it says that an equal verifier passes. The
  verifier is first handed to \<open>pkce.NewS256Verifier\<close>, and when that constructor returns an
  error the exchange fails with \<open>invalid_grant\<close> before any comparison (lines 547-550). On
  the reference implementation, whose constructor refuses the empty verifier: a
  confidential client exchanges a code whose stored challenge is the transform of the empty
  verifier and sends no verifier. The request passes the validation, PKCE is verified
  because of the stored challenge, the transform of the verifier equals the challenge, and
  the step and the exchange fail with \<open>invalid_grant\<close> "invalid authorization code".
\<close>

theorem pkce_equal_verifier_rejected:
  "validateRequest secretRequest confidentialClient = None \<and>
   needVerifyPKCE confidentialClient emptyVerifierRequest secretRequest \<and>
   S256Challenge (Pkg fakeHandler) (r_CodeVerifier secretRequest) =
     ar_CodeChallenge emptyVerifierRequest \<and>
   verifyPKCE fakeHandler confidentialClient emptyVerifierRequest secretRequest =
     Some (OAuthProtocolError ''invalid_grant'' ''invalid authorization code'') \<and>
   map cg_AuthorizationRequest (w_codeGrants emptyVerifierWorld) = [emptyVerifierRequest] \<and>
   fst (IssueTokensForAuthorizationCode fakeHandler noProof confidentialClient secretRequest
          emptyVerifierWorld) =
     Err (OAuthProtocolError ''invalid_grant'' ''invalid authorization code'')"
  by (simp add: run_empty_verifier)
     (simp add: validateRequest_def needVerifyPKCE_def verifyPKCE_def NewS256Verifier_def
        errInvalidAuthzCode_def grantTypes fakes inputs emptyVerifierRequest_def
        emptyVerifierWorld_def secretRequest_def)

text \<open>
  C2, amended. In the authorization code exchange PKCE is verified if and only if the
  client is public, or the stored grant has a code challenge, or the request carries a
  code verifier. When it is not verified the step passes. When it is verified: a verifier
  that \<open>pkce.NewS256Verifier\<close> refuses fails with \<open>invalid_grant\<close> "invalid authorization
  code", whatever its transform; a verifier whose BASE64URL(SHA256(V)) differs from the
  stored challenge fails with the same error; and a verifier that the constructor accepts
  and whose transform equals the challenge passes. Both failures are also the result of the
  whole exchange once the exchange has reached the step.
\<close>

theorem pkce_verification:
  "(needVerifyPKCE client ar r =
      (c_IsPublic client \<or> ar_CodeChallenge ar \<noteq> '''' \<or> r_CodeVerifier r \<noteq> '''')) \<and>
   (\<not> needVerifyPKCE client ar r \<longrightarrow> verifyPKCE h client ar r = None) \<and>
   (needVerifyPKCE client ar r \<and>
    validateCodeVerifier (Pkg h) (r_CodeVerifier r) \<noteq> None \<longrightarrow>
      verifyPKCE h client ar r =
        Some (OAuthProtocolError ''invalid_grant'' ''invalid authorization code'')) \<and>
   (needVerifyPKCE client ar r \<and>
    S256Challenge (Pkg h) (r_CodeVerifier r) \<noteq> ar_CodeChallenge ar \<longrightarrow>
      verifyPKCE h client ar r =
        Some (OAuthProtocolError ''invalid_grant'' ''invalid authorization code'')) \<and>
   (needVerifyPKCE client ar r \<and>
    validateCodeVerifier (Pkg h) (r_CodeVerifier r) = None \<and>
    S256Challenge (Pkg h) (r_CodeVerifier r) = ar_CodeChallenge ar \<longrightarrow>
      verifyPKCE h client ar r = None) \<and>
   (\<forall>codeGrant deviceInfo uiInfo.
      r_DeviceInfo r = Inr deviceInfo \<and>
      GetCodeGrant (CodeGrants h) (HashToken (Pkg h) (r_Code r)) s = Inr codeGrant \<and>
      MatchDPoPJKT (Pkg h) codeGrant (GetDPoPProof ctx) \<and>
      ResolveForAuthorizationEndpoint (UIInfoResolver h) client
        (cg_AuthorizationRequest codeGrant) s = Inr uiInfo \<and>
      \<not> NowUTC h (WithUIParam (Pkg h) uiInfo s) > cg_ExpireAt codeGrant \<and>
      cg_RedirectURI codeGrant = r_RedirectURI r \<and>
      needVerifyPKCE client (cg_AuthorizationRequest codeGrant) r \<and>
      (validateCodeVerifier (Pkg h) (r_CodeVerifier r) \<noteq> None \<or>
       S256Challenge (Pkg h) (r_CodeVerifier r) \<noteq>
         ar_CodeChallenge (cg_AuthorizationRequest codeGrant)) \<longrightarrow>
        IssueTokensForAuthorizationCode h ctx client r s =
          (Err (OAuthProtocolError ''invalid_grant'' ''invalid authorization code''),
           WithUIParam (Pkg h) uiInfo s))"
proof -
  have step: "verifyPKCE h client ar r =
      (if needVerifyPKCE client ar r \<and>
          (validateCodeVerifier (Pkg h) (r_CodeVerifier r) \<noteq> None \<or>
           S256Challenge (Pkg h) (r_CodeVerifier r) \<noteq> ar_CodeChallenge ar)
       then Some (OAuthProtocolError ''invalid_grant'' ''invalid authorization code'')
       else None)" for ar
    by (auto simp add: verifyPKCE_def NewS256Verifier_def ConstantTimeCompare_eq_1
        errInvalidAuthzCode_def split: option.splits)
  have need: "needVerifyPKCE client ar r =
      (c_IsPublic client \<or> ar_CodeChallenge ar \<noteq> '''' \<or> r_CodeVerifier r \<noteq> '''')"
    by (simp add: needVerifyPKCE_def)
  have exchange: "IssueTokensForAuthorizationCode h ctx client r s =
          (Err (OAuthProtocolError ''invalid_grant'' ''invalid authorization code''),
           WithUIParam (Pkg h) uiInfo s)"
    if "r_DeviceInfo r = Inr deviceInfo"
      and "GetCodeGrant (CodeGrants h) (HashToken (Pkg h) (r_Code r)) s = Inr codeGrant"
      and "MatchDPoPJKT (Pkg h) codeGrant (GetDPoPProof ctx)"
      and "ResolveForAuthorizationEndpoint (UIInfoResolver h) client
             (cg_AuthorizationRequest codeGrant) s = Inr uiInfo"
      and "\<not> NowUTC h (WithUIParam (Pkg h) uiInfo s) > cg_ExpireAt codeGrant"
      and "cg_RedirectURI codeGrant = r_RedirectURI r"
      and "needVerifyPKCE client (cg_AuthorizationRequest codeGrant) r"
      and "validateCodeVerifier (Pkg h) (r_CodeVerifier r) \<noteq> None \<or>
           S256Challenge (Pkg h) (r_CodeVerifier r) \<noteq>
             ar_CodeChallenge (cg_AuthorizationRequest codeGrant)"
    for codeGrant deviceInfo uiInfo
  proof -
    from that(7,8) have "verifyPKCE h client (cg_AuthorizationRequest codeGrant) r =
        Some (OAuthProtocolError ''invalid_grant'' ''invalid authorization code'')"
      by (simp add: step)
    with that(1-6) show ?thesis
      by (simp add: IssueTokensForAuthorizationCode_def Let_def)
  qed
  show ?thesis
    using need exchange by (simp add: step)
qed

theorem pkce_verification_witness:
  "needVerifyPKCE publicClient (cg_AuthorizationRequest aliceCodeGrant)
     (codeRequest\<lparr> r_CodeVerifier := ''wrong-verifier'' \<rparr>) \<and>
   verifyPKCE fakeHandler publicClient (cg_AuthorizationRequest aliceCodeGrant) codeRequest = None \<and>
   IssueTokensForAuthorizationCode fakeHandler noProof publicClient
     (codeRequest\<lparr> r_CodeVerifier := ''wrong-verifier'' \<rparr>) world0 =
     (Err (OAuthProtocolError ''invalid_grant'' ''invalid authorization code''),
      world0\<lparr> w_uiParam := ''ui'' \<rparr>) \<and>
   validateCodeVerifier (Pkg fakeHandler) (r_CodeVerifier secretRequest) \<noteq> None \<and>
   verifyPKCE fakeHandler confidentialClient emptyVerifierRequest secretRequest =
     Some (OAuthProtocolError ''invalid_grant'' ''invalid authorization code'')"
  using pkce_verification[of publicClient "cg_AuthorizationRequest aliceCodeGrant"
      "codeRequest\<lparr> r_CodeVerifier := ''wrong-verifier'' \<rparr>" fakeHandler world0 noProof]
    pkce_verification[of publicClient "cg_AuthorizationRequest aliceCodeGrant"
      codeRequest fakeHandler world0 noProof]
    pkce_verification[of confidentialClient emptyVerifierRequest secretRequest fakeHandler
      world0 noProof]
  by (simp add: fakes inputs emptyVerifierRequest_def secretRequest_def)

subsection \<open>Single use of an authorization code\<close>

text \<open>
  C1, as the claim states it, fails in three ways. When the store cannot delete the grant,
  the error is only logged: the exchange succeeds, and the same code is exchanged a second
  time with success. An expired code that is bound to a DPoP key and presented without the
  proof fails with the DPoP binding error, because that check comes before the expiry
  check. An unknown code in a request whose device info does not parse fails with
  \<open>invalid_request\<close>, because the device info is read first.
\<close>

theorem code_exchange_replay_and_early_checks:
  "fst (IssueTokensForAuthorizationCode fakeHandler noProof publicClient codeRequest
          (world0\<lparr> w_storeDown := True \<rparr>)) = Ok issuedTokens \<and>
   fst (IssueTokensForAuthorizationCode fakeHandler noProof publicClient codeRequest
          (snd (IssueTokensForAuthorizationCode fakeHandler noProof publicClient codeRequest
                  (world0\<lparr> w_storeDown := True \<rparr>)))) = Ok issuedTokens \<and>
   map cg_ExpireAt (w_codeGrants expiredBoundWorld) = [50] \<and>
   NowUTC fakeHandler expiredBoundWorld = 100 \<and>
   fst (IssueTokensForAuthorizationCode fakeHandler noProof publicClient codeRequest
          expiredBoundWorld) = Err ErrInvalidDPoPKeyBinding \<and>
   GetCodeGrant (CodeGrants fakeHandler) (HashToken (Pkg fakeHandler) ''no-such-code'') world0 =
     Inl ErrGrantNotFound \<and>
   fst (IssueTokensForAuthorizationCode fakeHandler noProof publicClient
          (codeRequest\<lparr> r_Code := ''no-such-code'',
                         r_DeviceInfo := Inl ''invalid device info'' \<rparr>) world0) =
     Err (OAuthProtocolError ''invalid_request'' ''invalid device info'')"
  by (simp add: run_code1_store_down run_code1_store_down_again run_expired_bound
      run_unknown_bad_device)
     (simp add: fakes inputs outcomes)

text \<open>
  C1, amended. For a request whose device info parses: a code whose hash the store does
  not know fails with \<open>invalid_grant\<close> "invalid authorization code", and so does a code
  past its expiry once its DPoP binding matches and the UI parameters resolve (both are
  checked before the expiry). The exchange succeeds exactly when the grant is found, the
  DPoP binding matches, the UI parameters resolve, the code is not expired, the redirect
  URI is the grant's, PKCE and the client secret pass, the authorization is found and the
  tokens are issued; \<open>DeleteCodeGrant\<close> is then applied to the grant and its error, if
  any, is dropped. Once the store no longer finds the code after a successful exchange,
  every further exchange of the same code fails with the same \<open>invalid_grant\<close> error.
\<close>

theorem code_exchange_single_use:
  "((\<exists>deviceInfo. r_DeviceInfo r = Inr deviceInfo) \<and>
    GetCodeGrant (CodeGrants h) (HashToken (Pkg h) (r_Code r)) s = Inl ErrGrantNotFound \<longrightarrow>
      IssueTokensForAuthorizationCode h ctx client r s =
        (Err (OAuthProtocolError ''invalid_grant'' ''invalid authorization code''), s)) \<and>
   (\<forall>deviceInfo codeGrant uiInfo.
      r_DeviceInfo r = Inr deviceInfo \<and>
      GetCodeGrant (CodeGrants h) (HashToken (Pkg h) (r_Code r)) s = Inr codeGrant \<and>
      MatchDPoPJKT (Pkg h) codeGrant (GetDPoPProof ctx) \<and>
      ResolveForAuthorizationEndpoint (UIInfoResolver h) client
        (cg_AuthorizationRequest codeGrant) s = Inr uiInfo \<and>
      NowUTC h (WithUIParam (Pkg h) uiInfo s) > cg_ExpireAt codeGrant \<longrightarrow>
        IssueTokensForAuthorizationCode h ctx client r s =
          (Err (OAuthProtocolError ''invalid_grant'' ''invalid authorization code''),
           WithUIParam (Pkg h) uiInfo s)) \<and>
   (\<forall>resp s'.
      (IssueTokensForAuthorizationCode h ctx client r s = (Ok resp, s')) =
      (\<exists>deviceInfo codeGrant uiInfo authz s2.
         r_DeviceInfo r = Inr deviceInfo \<and>
         GetCodeGrant (CodeGrants h) (HashToken (Pkg h) (r_Code r)) s = Inr codeGrant \<and>
         MatchDPoPJKT (Pkg h) codeGrant (GetDPoPProof ctx) \<and>
         ResolveForAuthorizationEndpoint (UIInfoResolver h) client
           (cg_AuthorizationRequest codeGrant) s = Inr uiInfo \<and>
         \<not> NowUTC h (WithUIParam (Pkg h) uiInfo s) > cg_ExpireAt codeGrant \<and>
         cg_RedirectURI codeGrant = r_RedirectURI r \<and>
         verifyPKCE h client (cg_AuthorizationRequest codeGrant) r = None \<and>
         verifyClientSecret h client r = None \<and>
         GetByID (Authorizations h) (cg_AuthorizationID codeGrant)
           (WithUIParam (Pkg h) uiInfo s) = Inr authz \<and>
         doIssueTokensForAuthorizationCode h ctx client codeGrant authz deviceInfo
           (r_App2AppDeviceKeyJWT r) (WithUIParam (Pkg h) uiInfo s) = (Ok resp, s2) \<and>
         s' = snd (DeleteCodeGrant (CodeGrants h) codeGrant s2))) \<and>
   (\<forall>resp s' ctx2 client2 r2 deviceInfo2.
      IssueTokensForAuthorizationCode h ctx client r s = (Ok resp, s') \<and>
      GetCodeGrant (CodeGrants h) (HashToken (Pkg h) (r_Code r)) s' = Inl ErrGrantNotFound \<and>
      r_Code r2 = r_Code r \<and> r_DeviceInfo r2 = Inr deviceInfo2 \<longrightarrow>
        IssueTokensForAuthorizationCode h ctx2 client2 r2 s' =
          (Err (OAuthProtocolError ''invalid_grant'' ''invalid authorization code''), s'))"
proof (intro conjI allI impI)
  assume "(\<exists>deviceInfo. r_DeviceInfo r = Inr deviceInfo) \<and>
    GetCodeGrant (CodeGrants h) (HashToken (Pkg h) (r_Code r)) s = Inl ErrGrantNotFound"
  then obtain deviceInfo where "r_DeviceInfo r = Inr deviceInfo"
    and "GetCodeGrant (CodeGrants h) (HashToken (Pkg h) (r_Code r)) s = Inl ErrGrantNotFound"
    by blast
  then show "IssueTokensForAuthorizationCode h ctx client r s =
      (Err (OAuthProtocolError ''invalid_grant'' ''invalid authorization code''), s)"
    by (rule IssueTokensForAuthorizationCode_unknown)
next
  fix deviceInfo codeGrant uiInfo
  assume a: "r_DeviceInfo r = Inr deviceInfo \<and>
    GetCodeGrant (CodeGrants h) (HashToken (Pkg h) (r_Code r)) s = Inr codeGrant \<and>
    MatchDPoPJKT (Pkg h) codeGrant (GetDPoPProof ctx) \<and>
    ResolveForAuthorizationEndpoint (UIInfoResolver h) client
      (cg_AuthorizationRequest codeGrant) s = Inr uiInfo \<and>
    NowUTC h (WithUIParam (Pkg h) uiInfo s) > cg_ExpireAt codeGrant"
  show "IssueTokensForAuthorizationCode h ctx client r s =
        (Err (OAuthProtocolError ''invalid_grant'' ''invalid authorization code''),
         WithUIParam (Pkg h) uiInfo s)"
    by (rule IssueTokensForAuthorizationCode_expired[of r deviceInfo h s codeGrant])
       (simp_all add: a)
next
  fix resp s' ctx2 client2 and r2 :: TokenRequest and deviceInfo2 :: string
  assume a: "IssueTokensForAuthorizationCode h ctx client r s = (Ok resp, s') \<and>
    GetCodeGrant (CodeGrants h) (HashToken (Pkg h) (r_Code r)) s' = Inl ErrGrantNotFound \<and>
    r_Code r2 = r_Code r \<and> r_DeviceInfo r2 = Inr deviceInfo2"
  then have dev: "r_DeviceInfo r2 = Inr deviceInfo2"
    and gone: "GetCodeGrant (CodeGrants h) (HashToken (Pkg h) (r_Code r2)) s' =
      Inl ErrGrantNotFound" by simp_all
  from dev gone show "IssueTokensForAuthorizationCode h ctx2 client2 r2 s' =
        (Err (OAuthProtocolError ''invalid_grant'' ''invalid authorization code''), s')"
    by (rule IssueTokensForAuthorizationCode_unknown)
qed (rule IssueTokensForAuthorizationCode_Ok)

theorem code_exchange_single_use_witness:
  "IssueTokensForAuthorizationCode fakeHandler noProof publicClient codeRequest world0 =
     (Ok issuedTokens, world1) \<and>
   GetCodeGrant (CodeGrants fakeHandler) (HashToken (Pkg fakeHandler) (r_Code codeRequest))
     world1 = Inl ErrGrantNotFound \<and>
   r_DeviceInfo codeRequest = Inr ''device'' \<and>
   IssueTokensForAuthorizationCode fakeHandler noProof publicClient codeRequest world1 =
     (Err (OAuthProtocolError ''invalid_grant'' ''invalid authorization code''), world1)"
proof -
  have gone: "GetCodeGrant (CodeGrants fakeHandler)
      (HashToken (Pkg fakeHandler) (r_Code codeRequest)) world1 = Inl ErrGrantNotFound"
    by (simp add: fakes inputs outcomes)
  have dev: "r_DeviceInfo codeRequest = Inr ''device''"
    by (simp add: codeRequest_def)
  have "IssueTokensForAuthorizationCode fakeHandler noProof publicClient codeRequest world1 =
     (Err (OAuthProtocolError ''invalid_grant'' ''invalid authorization code''), world1)"
    using code_exchange_single_use[of codeRequest fakeHandler world0 noProof publicClient]
      run_code1 gone dev
    by blast
  with run_code1 gone dev show ?thesis by simp
qed

subsection \<open>The settings action code exchange\<close>



subsection \<open>The tokens of an authorization code exchange\<close>

text \<open>
  C8, as the claim states it, fails: a confidential client whose grant types do not list
  \<open>refresh_token\<close> exchanges a code with the scopes openid and offline\_access
  successfully, and the response has an access token and an ID token but no refresh
  token. The handler issues a refresh token only to a client that is allowed to use one.
\<close>

theorem code_exchange_without_refresh_token:
  "ar_Scope (cg_AuthorizationRequest aliceCodeGrant) = [''openid'', ''offline_access''] \<and>
   GetCodeGrant (CodeGrants fakeHandler) (HashToken (Pkg fakeHandler) ''code-1'') world0 =
     Inr aliceCodeGrant \<and>
   c_GrantTypes confidentialClient = [] \<and>
   fst (IssueTokensForAuthorizationCode fakeHandler noProof confidentialClient
          (codeRequest\<lparr> r_ClientSecret := ''s3cret'' \<rparr>) world0) =
     Ok accessAndIDTokens \<and>
   accessAndIDTokens ''access_token'' = Some ''access-token:new-grant'' \<and>
   accessAndIDTokens ''id_token'' = Some ''id-token:og:new-grant'' \<and>
   accessAndIDTokens ''refresh_token'' = None"
  by (simp add: run_confidential) (simp add: fakes inputs accessAndIDTokens_def)

text \<open>
  C8, amended. Let the token service write a non-empty refresh token into the response
  when it issues an offline grant or a refresh token for one, and a non-empty access token
  when it issues an access grant, keeping the refresh token; let the ID token issuer
  return non-empty ID tokens. Then for a client whose grant types list \<open>refresh_token\<close>,
  a successful exchange of a code whose authorization request carries the scopes openid
  and offline\_access returns a response with a non-empty access token, refresh token and
  ID token.
\<close>

theorem code_exchange_tokens:
  assumes offline: "\<And>client opts resp s g th resp1 s'.
      IssueOfflineGrant (TokenService h) client opts (Some resp) s = (Inr (g, th, resp1), s') \<Longrightarrow>
      \<exists>m t. resp1 = Some m \<and> m ''refresh_token'' = Some t \<and> t \<noteq> ''''"
    and refresh: "\<And>grantID client opts resp s g th resp1 s'.
      IssueRefreshTokenForOfflineGrant (TokenService h) grantID client opts resp s =
        (Inr (g, th, resp1), s') \<Longrightarrow>
      \<exists>t. resp1 ''refresh_token'' = Some t \<and> t \<noteq> ''''"
    and access: "\<And>client scopes authzID userID sessionID kind refreshTokenHash resp s resp1 s'.
      IssueAccessGrant (TokenService h) client scopes authzID userID sessionID kind
        refreshTokenHash resp s = (Inr resp1, s') \<Longrightarrow>
      (\<exists>t. resp1 ''access_token'' = Some t \<and> t \<noteq> '''') \<and>
      resp1 ''refresh_token'' = resp ''refresh_token''"
    and idtoken: "\<And>opts s t s'.
      IssueIDToken (IDTokenIssuer h) opts s = (Inr t, s') \<Longrightarrow> t \<noteq> ''''"
    and allowed: "RefreshTokenGrantType \<in> set (c_GrantTypes client)"
    and found: "GetCodeGrant (CodeGrants h) (HashToken (Pkg h) (r_Code r)) s = Inr codeGrant"
    and scopes: "ar_Scope (cg_AuthorizationRequest codeGrant) = [''openid'', ''offline_access'']"
    and ok: "IssueTokensForAuthorizationCode h ctx client r s = (Ok resp, s')"
  shows "(\<exists>t. resp ''access_token'' = Some t \<and> t \<noteq> '''') \<and>
         (\<exists>t. resp ''refresh_token'' = Some t \<and> t \<noteq> '''') \<and>
         (\<exists>t. resp ''id_token'' = Some t \<and> t \<noteq> '''')"
proof -
  from ok[unfolded IssueTokensForAuthorizationCode_Ok]
  obtain deviceInfo cg uiInfo authz s2 where
    g: "GetCodeGrant (CodeGrants h) (HashToken (Pkg h) (r_Code r)) s = Inr cg"
    and d0: "doIssueTokensForAuthorizationCode h ctx client cg authz deviceInfo
          (r_App2AppDeviceKeyJWT r) (WithUIParam (Pkg h) uiInfo s) = (Ok resp, s2)"
    by blast
  from g found have "cg = codeGrant" by simp
  with d0 have d: "doIssueTokensForAuthorizationCode h ctx client codeGrant authz deviceInfo
          (r_App2AppDeviceKeyJWT r) (WithUIParam (Pkg h) uiInfo s) = (Ok resp, s2)"
    by simp
  from doIssueTokensForAuthorizationCode_Ok[OF d] obtain k resp0 a sa sb where
    sel: "selectAccessTokenSession h ctx client codeGrant authz deviceInfo k resp0 sa = (Ok a, sb)"
    and iss: "issueAccessAndIDToken h client codeGrant authz a sb = (Ok resp, s2)"
    by blast
  have flag: "issueRefreshTokenFlag client (ar_Scope (cg_AuthorizationRequest codeGrant))"
    using allowed scopes
    by (simp add: issueRefreshTokenFlag_def scopeFlags_def OfflineAccess_def foundInList_set)
  have openid: "snd (scopeFlags (ar_Scope (cg_AuthorizationRequest codeGrant)))"
    using scopes by (simp add: scopeFlags_def OfflineAccess_def)
  from offline refresh flag sel
  have rt: "\<exists>t. ats_resp a ''refresh_token'' = Some t \<and> t \<noteq> ''''"
    by (rule selectAccessTokenSession_refresh)
  from access idtoken openid iss
  have toks: "(\<exists>t. resp ''access_token'' = Some t \<and> t \<noteq> '''') \<and>
         resp ''refresh_token'' = ats_resp a ''refresh_token'' \<and>
         (\<exists>t. resp ''id_token'' = Some t \<and> t \<noteq> '''')"
    by (rule issueAccessAndIDToken_tokens)
  from rt toks show ?thesis by simp
qed

theorem code_exchange_tokens_witness:
  "RefreshTokenGrantType \<in> set (c_GrantTypes publicClient) \<and>
   GetCodeGrant (CodeGrants fakeHandler) (HashToken (Pkg fakeHandler) (r_Code codeRequest))
     world0 = Inr aliceCodeGrant \<and>
   ar_Scope (cg_AuthorizationRequest aliceCodeGrant) = [''openid'', ''offline_access''] \<and>
   IssueTokensForAuthorizationCode fakeHandler noProof publicClient codeRequest world0 =
     (Ok issuedTokens, world1) \<and>
   (\<exists>t. issuedTokens ''access_token'' = Some t \<and> t \<noteq> '''') \<and>
   (\<exists>t. issuedTokens ''refresh_token'' = Some t \<and> t \<noteq> '''') \<and>
   (\<exists>t. issuedTokens ''id_token'' = Some t \<and> t \<noteq> '''')"
proof -
  have offline: "\<And>client opts resp s g th resp1 s'.
      IssueOfflineGrant (TokenService fakeHandler) client opts (Some resp) s =
        (Inr (g, th, resp1), s') \<Longrightarrow>
      \<exists>m t. resp1 = Some m \<and> m ''refresh_token'' = Some t \<and> t \<noteq> ''''"
    by (auto simp add: fakes Let_def)
  have refresh: "\<And>grantID client opts resp s g th resp1 s'.
      IssueRefreshTokenForOfflineGrant (TokenService fakeHandler) grantID client opts resp s =
        (Inr (g, th, resp1), s') \<Longrightarrow>
      \<exists>t. resp1 ''refresh_token'' = Some t \<and> t \<noteq> ''''"
    by (auto simp add: fakes split: option.splits)
  have access: "\<And>client scopes authzID userID sessionID kind refreshTokenHash resp s resp1 s'.
      IssueAccessGrant (TokenService fakeHandler) client scopes authzID userID sessionID kind
        refreshTokenHash resp s = (Inr resp1, s') \<Longrightarrow>
      (\<exists>t. resp1 ''access_token'' = Some t \<and> t \<noteq> '''') \<and>
      resp1 ''refresh_token'' = resp ''refresh_token''"
    by (auto simp add: fakes)
  have idtoken: "\<And>opts s t s'.
      IssueIDToken (IDTokenIssuer fakeHandler) opts s = (Inr t, s') \<Longrightarrow> t \<noteq> ''''"
    by (auto simp add: fakes)
  have allowed: "RefreshTokenGrantType \<in> set (c_GrantTypes publicClient)"
    by (simp add: RefreshTokenGrantType_def publicClient_def)
  have found: "GetCodeGrant (CodeGrants fakeHandler)
      (HashToken (Pkg fakeHandler) (r_Code codeRequest)) world0 = Inr aliceCodeGrant"
    by (simp add: fakes inputs)
  have scopes: "ar_Scope (cg_AuthorizationRequest aliceCodeGrant) =
      [''openid'', ''offline_access'']"
    by (simp add: aliceCodeGrant_def)
  from offline refresh access idtoken allowed found scopes run_code1
  have "(\<exists>t. issuedTokens ''access_token'' = Some t \<and> t \<noteq> '''') \<and>
        (\<exists>t. issuedTokens ''refresh_token'' = Some t \<and> t \<noteq> '''') \<and>
        (\<exists>t. issuedTokens ''id_token'' = Some t \<and> t \<noteq> '''')"
    by (rule code_exchange_tokens)
  with allowed found scopes run_code1 show ?thesis by simp
qed

end
